theory Spec2Isabelle
  imports Main "HOL-Library.Word"
begin

unbundle bit_operations_syntax

section \<open>DensePose part-map post-processing: \<^verbatim>\<open>ShowAction\<close> of \<^verbatim>\<open>apply_net_cust.py\<close>\<close>

text \<open>
  The development embeds the pixel-level logic of \<^verbatim>\<open>ShowAction\<close> in
  \<^verbatim>\<open>projects/DensePose/apply_net_cust.py\<close>: the label remapping, the
  colorizer with its background correction, the compositing onto a white canvas
  (all in \<^verbatim>\<open>execute_on_outputs\<close>), and the helpers \<^verbatim>\<open>double_image\<close>,
  \<^verbatim>\<open>find_body_part\<close> and \<^verbatim>\<open>generate_bitmaps\<close>.

  A numpy array of dtype uint8 with two axes is a list of rows of 8-bit words; an array
  with a third axis of length 3 (a BGR image) is a list of rows of pixel triples.
  An array with no rows has no recorded width.
\<close>

subsection \<open>Label arrays and the remapping (lines 376--388)\<close>

type_synonym label_array = "8 word list list"

text \<open>
  \<^verbatim>\<open>I = data[0][0][0].labels.cpu().numpy(); I = I.astype(np.uint8)\<close>:
  the label tensor holds integers; the cast keeps the low 8 bits of each.
\<close>

definition load_labels :: "int list list \<Rightarrow> label_array" where
  "load_labels raw = map (map word_of_int) raw"

text \<open>The masked assignment \<^verbatim>\<open>I[I == a] = b\<close> on a uint8 array.\<close>

definition masked_assign :: "8 word \<Rightarrow> 8 word \<Rightarrow> label_array \<Rightarrow> label_array" where
  "masked_assign a b I = map (map (\<lambda>v. if v = a then b else v)) I"

text \<open>The ten assignments of lines 379--388, in the order of the source.\<close>

definition remap_labels :: "label_array \<Rightarrow> label_array" where
  "remap_labels I0 =
     (let I = masked_assign 2 1 I0;
          I = masked_assign 17 15 I;
          I = masked_assign 18 16 I;
          I = masked_assign 7 9 I;
          I = masked_assign 8 10 I;
          I = masked_assign 11 13 I;
          I = masked_assign 12 14 I;
          I = masked_assign 19 21 I;
          I = masked_assign 20 22 I;
          I = masked_assign 24 23 I
      in I)"

text \<open>
  The symmetry table as the specification words it: ten raw labels are folded onto
  their partner, every other label is mapped to itself.
\<close>

definition symmetry_pairs :: "(8 word \<times> 8 word) list" where
  "symmetry_pairs = [(2, 1), (17, 15), (18, 16), (7, 9), (8, 10), (11, 13), (12, 14),
                     (19, 21), (20, 22), (24, 23)]"

definition symmetry_table :: "8 word \<Rightarrow> 8 word" where
  "symmetry_table v = (case map_of symmetry_pairs v of Some m \<Rightarrow> m | None \<Rightarrow> v)"

text \<open>Every pixel of a label array is at most \<open>m\<close>.\<close>

definition pixels_le :: "8 word \<Rightarrow> label_array \<Rightarrow> bool" where
  "pixels_le m A = (\<forall>row \<in> set A. \<forall>v \<in> set row. v \<le> m)"

text \<open>The labels that occur after the remapping of labels 0 to 24.\<close>

definition merged_labels :: "8 word set" where
  "merged_labels = set [0, 1, 3, 4, 5, 6, 9, 10, 13, 14, 15, 16, 21, 22, 23]"

definition pixels_in :: "8 word set \<Rightarrow> label_array \<Rightarrow> bool" where
  "pixels_in S A = (\<forall>row \<in> set A. \<forall>v \<in> set row. v \<in> S)"

subsection \<open>Library behaviour taken as parameters\<close>

type_synonym pixel = "8 word \<times> 8 word \<times> 8 word"
type_synonym image = "pixel list list"
type_synonym contour = "(int \<times> int) list"

text \<open>
  The tables and algorithms of OpenCV and numpy that the source calls but does not
  contain are parameters of the model:
  \<^item> \<open>colormap\<close>: the lookup table of \<^verbatim>\<open>cv2.COLORMAP_PARULA\<close>, from an 8-bit
    intensity to a BGR triple;
  \<^item> \<open>cast_overflow\<close>: what numpy's cast from float32 to uint8 yields for a value
    whose integer part exceeds 255 (it depends on the platform);
  \<^item> \<open>findContours\<close>: the contours \<^verbatim>\<open>cv2.findContours\<close> returns for a mask, and
    the content it leaves in the buffer it was given (older OpenCV versions overwrite it);
  \<^item> \<open>covered\<close>: whether the rasterisation of a contour list with a given thickness
    (negative: filled) by \<^verbatim>\<open>cv2.drawContours\<close> covers the pixel at a row and column;
  \<^item> \<open>resample\<close>: the pixel that \<^verbatim>\<open>cv2.resize\<close> with \<^verbatim>\<open>INTER_AREA\<close> computes
    at a row and column of the target, given the source and the target size;
  \<^item> \<open>gray_of\<close>: the luminance \<^verbatim>\<open>cv2.cvtColor(_, COLOR_BGR2GRAY)\<close> gives a pixel.
\<close>

record cv2 =
  colormap :: "8 word \<Rightarrow> pixel"
  cast_overflow :: "nat \<Rightarrow> 8 word"
  findContours :: "label_array \<Rightarrow> contour list \<times> label_array"
  covered :: "contour list \<Rightarrow> int \<Rightarrow> nat \<Rightarrow> nat \<Rightarrow> bool"
  resample :: "image \<Rightarrow> nat \<times> nat \<Rightarrow> nat \<Rightarrow> nat \<Rightarrow> pixel"
  gray_of :: "pixel \<Rightarrow> 8 word"

subsection \<open>Colorizer and background correction (lines 418--428)\<close>

text \<open>
  \<^verbatim>\<open>I = I.astype(np.float32) * 10.625; I = I.astype(np.uint8)\<close>.
  For an 8-bit \<open>v\<close> the product \<open>v * 85 / 8\<close> is below \<open>2 ^ 12\<close> with three binary
  places, so float32 holds it exactly; the cast back truncates it. Labels up to 24 give
  at most 255; above that the cast is out of range.
\<close>

definition scale_intensity :: "('z cv2_scheme) \<Rightarrow> 8 word \<Rightarrow> 8 word" where
  "scale_intensity L v =
     (let t = unat v * 85 div 8
      in if t \<le> 255 then word_of_nat t else cast_overflow L t)"

definition white :: pixel where
  "white = (255, 255, 255)"

text \<open>\<^verbatim>\<open>I = cv2.applyColorMap(I, CMAP)\<close> after the scaling.\<close>

definition colorize :: "('z cv2_scheme) \<Rightarrow> label_array \<Rightarrow> image" where
  "colorize L I = map (map (\<lambda>v. colormap L (scale_intensity L v))) I"

text \<open>
  \<^verbatim>\<open>bg = cv2.applyColorMap(np.asarray([[[0, 0, 0]]], dtype=np.uint8), CMAP)[0][0]\<close>
  is the colour of intensity 0 (the three-channel zero pixel is grey level 0);
  \<^verbatim>\<open>I[np.all(I == bg, axis=-1)] = [255, 255, 255]\<close> whitens every pixel equal to it.
\<close>

definition background_correct :: "('z cv2_scheme) \<Rightarrow> image \<Rightarrow> image" where
  "background_correct L I =
     (let bg = colormap L 0
      in map (map (\<lambda>p. if p = bg then white else p)) I)"

subsection \<open>Compositing onto the canvas (lines 430--433)\<close>

text \<open>
  The exceptions of the pipeline: numpy's \<^verbatim>\<open>ValueError\<close> when a value cannot be
  broadcast into the region it is assigned to, \<^verbatim>\<open>cv2.error\<close> when OpenCV rejects an
  argument, \<^verbatim>\<open>FileNotFoundError\<close> from \<^verbatim>\<open>os.mkdir\<close>, and \<^verbatim>\<open>OverflowError\<close> from a
  division whose result no float holds.
\<close>

datatype error = ShapeMismatch | Cv2Error | FileNotFound | OverflowError

text \<open>\<^verbatim>\<open>x, y, w, h = bbox[0].astype(np.int32)\<close>: four signed 32-bit integers.\<close>

record bbox =
  box_x :: "32 word"
  box_y :: "32 word"
  box_w :: "32 word"
  box_h :: "32 word"

text \<open>
  The index range a Python slice \<^verbatim>\<open>start:stop\<close> selects on an axis of length \<open>n\<close>:
  a negative bound counts from the end, both bounds are clipped to the axis. The result
  is the first index and the number of indices.
\<close>

definition slice_bounds :: "int \<Rightarrow> int \<Rightarrow> nat \<Rightarrow> nat \<times> nat" where
  "slice_bounds start stop n =
     (let clip = (\<lambda>i. if i < 0 then max (i + int n) 0 else min i (int n));
          s = clip start;
          e = clip stop
      in (nat s, nat (e - s)))"

definition width :: "'a list list \<Rightarrow> nat" where
  "width A = (case A of [] \<Rightarrow> 0 | row # _ \<Rightarrow> length row)"

text \<open>
  \<^verbatim>\<open>target[rows, cols] = val\<close> for a target of shape \<open>(H, W, 3)\<close> and a value of shape
  \<open>(vh, vw, 3)\<close>: numpy broadcasts the value to the region, which needs each extent of the
  value to equal the extent of the region or to be 1, and raises otherwise.
\<close>

definition assign_region ::
  "nat \<times> nat \<Rightarrow> image \<Rightarrow> nat \<times> nat \<Rightarrow> nat \<times> nat \<Rightarrow> image \<Rightarrow> error + image" where
  "assign_region shape target rows cols val =
     (let (H, W) = shape; (r0, rl) = rows; (c0, cl) = cols;
          vh = length val; vw = width val
      in if (vh = rl \<or> vh = 1) \<and> (vw = cl \<or> vw = 1)
         then Inr (map (\<lambda>r. map (\<lambda>c.
                if r0 \<le> r \<and> r < r0 + rl \<and> c0 \<le> c \<and> c < c0 + cl
                then val ! (if vh = 1 then 0 else r - r0) ! (if vw = 1 then 0 else c - c0)
                else target ! r ! c) [0..<W]) [0..<H])
         else Inl ShapeMismatch)"

text \<open>
  \<^verbatim>\<open>image_target_bgr = np.full(image.shape, 255, dtype=np.uint8)\<close> and
  \<^verbatim>\<open>image_target_bgr[y:y + h, x:x + w] = I\<close>. The sums are sums of numpy int32
  scalars, which wrap around.
\<close>

definition composite :: "nat \<times> nat \<Rightarrow> bbox \<Rightarrow> image \<Rightarrow> error + image" where
  "composite shape bb I =
     (let (H, W) = shape;
          image_target_bgr = replicate H (replicate W white)
      in assign_region shape image_target_bgr
           (slice_bounds (sint (box_y bb)) (sint (box_y bb + box_h bb)) H)
           (slice_bounds (sint (box_x bb)) (sint (box_x bb + box_w bb)) W) I)"

subsection \<open>Arrays in memory, files and processes\<close>

text \<open>
  Arrays that the source passes by reference live in a store: one list of label arrays
  (two axes) and one of images (three axes), an array being named by its index. What
  the pipeline writes and launches is recorded in order in \<open>log\<close>; \<open>dirs\<close> are the
  directories that exist; \<open>entry_idx\<close> is \<^verbatim>\<open>context["entry_idx"]\<close>. Printing and
  logging are left out.
\<close>

datatype ndarray = Plane label_array | Colour image

datatype event = NpSave string ndarray | Imwrite string ndarray | Popen string

record state =
  labs :: "label_array list"
  imgs :: "image list"
  dirs :: "string list"
  log :: "event list"
  entry_idx :: int

definition np_save :: "string \<Rightarrow> ndarray \<Rightarrow> 's state_scheme \<Rightarrow> 's state_scheme" where
  "np_save path arr s = s\<lparr>log := log s @ [NpSave path arr]\<rparr>"

definition imwrite :: "string \<Rightarrow> ndarray \<Rightarrow> 's state_scheme \<Rightarrow> 's state_scheme" where
  "imwrite path arr s = s\<lparr>log := log s @ [Imwrite path arr]\<rparr>"

subsection \<open>\<^verbatim>\<open>generate_vector\<close> (lines 274--277)\<close>

definition autotrace_cmd :: "string \<Rightarrow> string \<Rightarrow> string" where
  "autotrace_cmd file_in file_out =
     ''autotrace -filter-iterations=4 -input-format bmp -output-format svg -output-file ''
       @ file_out @ '' '' @ file_in"

definition generate_vector :: "string \<Rightarrow> string \<Rightarrow> 's state_scheme \<Rightarrow> 's state_scheme" where
  "generate_vector file_in file_out s =
     (let cmd = autotrace_cmd file_in file_out
      in s\<lparr>log := log s @ [Popen cmd]\<rparr>)"

subsection \<open>\<^verbatim>\<open>double_image\<close> (lines 279--288)\<close>

fun bit_length :: "nat \<Rightarrow> nat" where
  "bit_length n = (if n = 0 then 0 else Suc (bit_length (n div 2)))"

declare bit_length.simps [simp del]

text \<open>
  The float (IEEE double, 53 significant bits, ties to even) nearest to a whole number.
\<close>

definition nearest_double :: "nat \<Rightarrow> nat" where
  "nearest_double m =
     (if m < 2 ^ 53 then m
      else let e = bit_length m - 53;
               q = m div 2 ^ e;
               r = m mod 2 ^ e;
               half = 2 ^ (e - 1)
           in (if half < r \<or> (r = half \<and> odd q) then q + 1 else q) * 2 ^ e)"

text \<open>
  \<^verbatim>\<open>int(image.shape[k] * scale_percent / 100)\<close> with \<^verbatim>\<open>scale_percent = 200\<close>. The
  product is an exact Python integer; \<^verbatim>\<open>/\<close> gives the float nearest to the exact
  quotient, which is a whole number because 100 divides 200, and raises when that
  exceeds the float range; \<^verbatim>\<open>int\<close> of a whole float is that number.
\<close>

definition scaled_dim :: "nat \<Rightarrow> error + nat" where
  "scaled_dim n =
     (let scale_percent = 200;
          f = nearest_double (n * scale_percent div 100)
      in if f < 2 ^ 1024 then Inr f else Inl OverflowError)"

text \<open>
  \<^verbatim>\<open>cv2.resize(image, (width, height), interpolation=cv2.INTER_AREA)\<close>: the result has
  \<open>height\<close> rows of \<open>width\<close> pixels. OpenCV rejects an empty source, an empty target size,
  and extents that are not C ints.
\<close>

definition cv2_resize :: "('z cv2_scheme) \<Rightarrow> image \<Rightarrow> nat \<times> nat \<Rightarrow> error + image" where
  "cv2_resize L img dim =
     (let (w, h) = dim
      in if img = [] \<or> width img = 0 \<or> w = 0 \<or> h = 0 \<or> 2 ^ 31 \<le> w \<or> 2 ^ 31 \<le> h
         then Inl Cv2Error
         else Inr (map (\<lambda>r. map (\<lambda>c. resample L img dim r c) [0..<w]) [0..<h]))"

definition double_image :: "('z cv2_scheme) \<Rightarrow> image \<Rightarrow> error + image" where
  "double_image L image' =
     (case scaled_dim (width image') of
        Inl e \<Rightarrow> Inl e
      | Inr width' \<Rightarrow>
          (case scaled_dim (length image') of
             Inl e \<Rightarrow> Inl e
           | Inr height' \<Rightarrow> cv2_resize L image' (width', height')))"

subsection \<open>\<^verbatim>\<open>find_body_part\<close> (lines 290--297)\<close>

text \<open>\<^verbatim>\<open>arr[arr != body_part_index] = 0\<close> and \<^verbatim>\<open>arr[arr == body_part_index] = 255\<close>.\<close>

definition mask_ne :: "int \<Rightarrow> label_array \<Rightarrow> label_array" where
  "mask_ne i A = map (map (\<lambda>v. if uint v \<noteq> i then 0 else v)) A"

definition mask_eq :: "int \<Rightarrow> label_array \<Rightarrow> label_array" where
  "mask_eq i A = map (map (\<lambda>v. if uint v = i then 255 else v)) A"

text \<open>
  \<open>body_parts\<close> is the index of the caller's array in the store. The copy is a new
  array of the store, and the two assignments and \<^verbatim>\<open>cv2.findContours\<close> work on it.
\<close>

definition find_body_part ::
  "('z cv2_scheme) \<Rightarrow> nat \<Rightarrow> int \<Rightarrow> 's state_scheme \<Rightarrow> contour list \<times> 's state_scheme" where
  "find_body_part L body_parts body_part_index s0 =
     (let arr = length (labs s0);
          s = s0\<lparr>labs := labs s0 @ [labs s0 ! body_parts]\<rparr>;
          s = s\<lparr>labs := (labs s)[arr := mask_ne body_part_index (labs s ! arr)]\<rparr>;
          s = s\<lparr>labs := (labs s)[arr := mask_eq body_part_index (labs s ! arr)]\<rparr>;
          (contours, left) = findContours L (labs s ! arr);
          s = s\<lparr>labs := (labs s)[arr := left]\<rparr>
      in (contours, s))"

subsection \<open>\<^verbatim>\<open>generate_bitmaps\<close> (lines 299--344)\<close>

text \<open>\<^verbatim>\<open>np.zeros(shape=image.shape, dtype=np.uint8)\<close>.\<close>

definition zeros_like :: "image \<Rightarrow> image" where
  "zeros_like img = map (map (\<lambda>_. (0, 0, 0))) img"

text \<open>
  \<^verbatim>\<open>cv2.drawContours(img, contours, -1, colour, thickness)\<close> paints the covered pixels
  of \<open>img\<close> in place.
\<close>

definition drawContours ::
  "('z cv2_scheme) \<Rightarrow> image \<Rightarrow> contour list \<Rightarrow> pixel \<Rightarrow> int \<Rightarrow> image" where
  "drawContours L img contours colour thickness =
     map (\<lambda>(r, row). map (\<lambda>(c, p). if covered L contours thickness r c then colour else p)
                          (enumerate 0 row))
         (enumerate 0 img)"

definition bitwise_not :: "image \<Rightarrow> image" where
  "bitwise_not img = map (map (\<lambda>(b, g, r). (NOT b, NOT g, NOT r))) img"

text \<open>
  One round of the loop over the body parts. \<open>image'\<close> and \<open>output_orig\<close> are indices
  into the store (the caller's arrays \<^verbatim>\<open>image\<close> and \<^verbatim>\<open>output_orig\<close>); \<open>blank\<close> is
  local to \<^verbatim>\<open>generate_bitmaps\<close>.
\<close>

definition part_step ::
  "('z cv2_scheme) \<Rightarrow> nat \<Rightarrow> nat \<Rightarrow> image \<times> 's state_scheme \<Rightarrow> int \<Rightarrow> image \<times> 's state_scheme" where
  "part_step L image' output_orig bs i =
     (let (blank, s) = bs;
          (contours, s) = find_body_part L output_orig i s
      in if length contours > 0
         then (drawContours L blank contours (255, 255, 255) 2,
               s\<lparr>imgs := (imgs s)[image' := drawContours L (imgs s ! image') contours (0, 0, 0) 2]\<rparr>)
         else (blank, s))"

definition part_loop ::
  "('z cv2_scheme) \<Rightarrow> nat \<Rightarrow> nat \<Rightarrow> image \<times> 's state_scheme \<Rightarrow> int list \<Rightarrow> image \<times> 's state_scheme" where
  "part_loop L image' output_orig bs parts = foldl (part_step L image' output_orig) bs parts"

definition generate_bitmaps ::
  "('z cv2_scheme) \<Rightarrow> string \<Rightarrow> nat \<Rightarrow> nat \<Rightarrow> nat \<Rightarrow> 's state_scheme
     \<Rightarrow> error option \<times> 's state_scheme" where
  "generate_bitmaps L prefix image' output_orig outline s0 =
     (let blank = zeros_like (imgs s0 ! image');
          blank_outline = zeros_like (imgs s0 ! image');
          solid_outline = zeros_like (imgs s0 ! image');
          (blank, s) = part_loop L image' output_orig (blank, s0) [1..23];
          blank = bitwise_not blank
      in case double_image L blank of
           Inl e \<Rightarrow> (Some e, s)
         | Inr blank \<Rightarrow>
     (let s = imwrite (''/content/'' @ prefix @ ''blank.bmp'') (Colour blank) s;
          s = generate_vector (''/content/'' @ prefix @ ''blank.bmp'')
                              (''/content/'' @ prefix @ ''blank.svg'') s
      in case double_image L (imgs s ! image') of
           Inl e \<Rightarrow> (Some e, s)
         | Inr image2 \<Rightarrow>
     (let s = imwrite (''/content/'' @ prefix @ ''image.bmp'') (Colour image2) s;
          s = generate_vector (''/content/'' @ prefix @ ''image.bmp'')
                              (''/content/'' @ prefix @ ''image.svg'') s;
          gray = map (map (gray_of L)) image2;
          s = imwrite (''/content/'' @ prefix @ ''image_bw.bmp'') (Plane gray) s;
          s = generate_vector (''/content/'' @ prefix @ ''image_bw.bmp'')
                              (''/content/'' @ prefix @ ''image_bw.svg'') s;
          (contours_o, s) = find_body_part L outline 1 s;
          (blank_outline, solid_outline) =
             (if length contours_o > 0
              then (drawContours L blank_outline contours_o (255, 255, 255) 2,
                    drawContours L solid_outline contours_o (255, 255, 255) (- 1))
              else (blank_outline, solid_outline));
          blank_outline = bitwise_not blank_outline
      in case double_image L blank_outline of
           Inl e \<Rightarrow> (Some e, s)
         | Inr blank_outline \<Rightarrow>
     (let s = imwrite (''/content/'' @ prefix @ ''blank_outline.bmp'') (Colour blank_outline) s;
          s = generate_vector (''/content/'' @ prefix @ ''blank_outline.bmp'')
                              (''/content/'' @ prefix @ ''blank_outline.svg'') s;
          solid_outline = bitwise_not solid_outline
      in case double_image L solid_outline of
           Inl e \<Rightarrow> (Some e, s)
         | Inr solid_outline \<Rightarrow>
     (let s = imwrite (''/content/'' @ prefix @ ''solid_outline.bmp'') (Colour solid_outline) s;
          s = generate_vector (''/content/'' @ prefix @ ''solid_outline.bmp'')
                              (''/content/'' @ prefix @ ''solid_outline.svg'') s
      in (None, s))))))"

subsection \<open>\<^verbatim>\<open>execute_on_outputs\<close> (lines 346--454)\<close>

text \<open>\<^verbatim>\<open>outline[outline > 0] = 1\<close>.\<close>

definition threshold_positive :: "label_array \<Rightarrow> label_array" where
  "threshold_positive A = map (map (\<lambda>v. if v > 0 then 1 else v)) A"

text \<open>
  The inputs are the shape \<open>(H, W)\<close> of \<^verbatim>\<open>entry["image"]\<close>, the name of the image file
  without directory and extension (\<open>stem\<close>), the label tensor and the bounding box that
  the extractor returns for the first detection. \<^verbatim>\<open>cv2.cvtColor\<close> rejects an empty
  image. \<open>ensure_results_dir\<close> is lines 362--363; \<^verbatim>\<open>os.mkdir\<close> needs the parent
  directory.
\<close>

definition ensure_results_dir :: "'s state_scheme \<Rightarrow> error + 's state_scheme" where
  "ensure_results_dir s =
     (if ''/content/results'' \<in> set (dirs s) then Inr s
      else if ''/content'' \<in> set (dirs s)
           then Inr (s\<lparr>dirs := dirs s @ [''/content/results'']\<rparr>)
           else Inl FileNotFound)"

definition execute_on_outputs ::
  "('z cv2_scheme) \<Rightarrow> nat \<times> nat \<Rightarrow> string \<Rightarrow> int list list \<Rightarrow> bbox \<Rightarrow> 's state_scheme
     \<Rightarrow> error option \<times> 's state_scheme" where
  "execute_on_outputs L shape stem raw bb s0 =
     (let prefix = ''/results/'' @ stem @ ''_''
      in case ensure_results_dir s0 of
           Inl e \<Rightarrow> (Some e, s0)
         | Inr s \<Rightarrow>
         if fst shape = 0 \<or> snd shape = 0 then (Some Cv2Error, s)
         else
     (let I = remap_labels (load_labels raw);
          output_orig = length (labs s);
          s = s\<lparr>labs := labs s @ [I]\<rparr>;
          s = np_save ''/content/output_orig.npy'' (Plane (labs s ! output_orig)) s;
          outline = length (labs s);
          s = s\<lparr>labs := labs s @ [I]\<rparr>;
          s = s\<lparr>labs := (labs s)[outline := threshold_positive (labs s ! outline)]\<rparr>;
          s = np_save ''/content/output_outline.npy'' (Plane (labs s ! outline)) s;
          I = background_correct L (colorize L I)
      in case composite shape bb I of
           Inl e \<Rightarrow> (Some e, s)
         | Inr image_target_bgr \<Rightarrow>
     (let image' = length (imgs s);
          s = s\<lparr>imgs := imgs s @ [I]\<rparr>;
          s = np_save (''/content/'' @ prefix @ ''output.npy'') (Colour (imgs s ! image')) s;
          s = imwrite ''/content/results/mytest.jpg'' (Colour image_target_bgr) s
      in case generate_bitmaps L prefix image' output_orig outline s of
           (Some e, s) \<Rightarrow> (Some e, s)
         | (None, s) \<Rightarrow> (None, s\<lparr>entry_idx := entry_idx s + 1\<rparr>))))"

text \<open>An array has \<open>h\<close> rows of \<open>w\<close> entries.\<close>

definition has_shape :: "'a list list \<Rightarrow> nat \<Rightarrow> nat \<Rightarrow> bool" where
  "has_shape A h w = (length A = h \<and> (\<forall>row \<in> set A. length row = w))"

text \<open>
  An instance of the library parameters, used to run the model on concrete inputs. Its
  colormap gives every intensity a colour of its own and none of them is white, as a
  colormap that tells the labels apart does; the cast wraps; no contour is found and the
  mask is left in the buffer; nothing is painted; the resampling is nearest neighbour;
  the luminance is the green channel. No theorem about the pipeline depends on it: each
  is stated for every value of the parameters.
\<close>

definition coarse_cv2 :: cv2 where
  "coarse_cv2 =
     \<lparr> colormap = (\<lambda>v. (135 + v, 42, 53)),
       cast_overflow = (\<lambda>t. word_of_nat t),
       findContours = (\<lambda>m. ([], m)),
       covered = (\<lambda>cs th r c. False),
       resample = (\<lambda>img (w, h) r c. img ! (r div 2) ! (c div 2)),
       gray_of = (\<lambda>(b, g, r). g) \<rparr>"

text \<open>Every value of the label tensor is a raw label, 0 to 24.\<close>

definition raw_in_range :: "int list list \<Rightarrow> bool" where
  "raw_in_range raw = (\<forall>row \<in> set raw. \<forall>v \<in> set row. 0 \<le> v \<and> v \<le> 24)"

text \<open>
  The inputs of a run that goes through: the results directory exists or can be made,
  the source image is a non-empty OpenCV image (extents below \<open>2 ^ 31\<close>), the bounding
  box has a non-negative origin and positive extents and lies inside the image, the
  label tensor has the shape \<open>(h, w)\<close> of the box, and twice its extents are C ints.
\<close>

definition valid_run :: "'s state_scheme \<Rightarrow> nat \<times> nat \<Rightarrow> bbox \<Rightarrow> int list list \<Rightarrow> bool" where
  "valid_run s shape bb raw =
     (let (H, W) = shape;
          x = sint (box_x bb); y = sint (box_y bb);
          w = sint (box_w bb); h = sint (box_h bb)
      in (''/content/results'' \<in> set (dirs s) \<or> ''/content'' \<in> set (dirs s))
         \<and> 0 < H \<and> 0 < W \<and> H < 2 ^ 31 \<and> W < 2 ^ 31
         \<and> 0 \<le> x \<and> 0 \<le> y \<and> 0 < w \<and> 0 < h
         \<and> x + w \<le> int W \<and> y + h \<le> int H
         \<and> h < 2 ^ 30 \<and> w < 2 ^ 30
         \<and> has_shape raw (nat h) (nat w))"

text \<open>A state to run the model from: empty store, nothing written, \<^verbatim>\<open>/content\<close> exists.\<close>

definition fresh_state :: state where
  "fresh_state = \<lparr>labs = [], imgs = [], dirs = [''/content''], log = [], entry_idx = 0\<rparr>"

text \<open>The chain of assignments acts on each pixel on its own.\<close>

definition remap_pixel :: "8 word \<Rightarrow> 8 word" where
  "remap_pixel v0 =
     (let v = (if v0 = 2 then 1 else v0);
          v = (if v = 17 then 15 else v);
          v = (if v = 18 then 16 else v);
          v = (if v = 7 then 9 else v);
          v = (if v = 8 then 10 else v);
          v = (if v = 11 then 13 else v);
          v = (if v = 12 then 14 else v);
          v = (if v = 19 then 21 else v);
          v = (if v = 20 then 22 else v);
          v = (if v = 24 then 23 else v)
      in v)"

section \<open>Properties\<close>

subsection \<open>The remapping\<close>

lemma remap_labels_pointwise: "remap_labels A = map (map remap_pixel) A"
  unfolding remap_labels_def masked_assign_def remap_pixel_def Let_def
  by (simp add: comp_def)

lemma remap_pixel_table: "remap_pixel v = symmetry_table v"
  unfolding remap_pixel_def symmetry_table_def symmetry_pairs_def Let_def
  by simp

lemma remap_labels_lookup: "remap_labels A = map (map symmetry_table) A"
  using remap_pixel_table by (simp add: remap_labels_pointwise)

lemma symmetry_table_image:
  "map_of symmetry_pairs v = Some m \<Longrightarrow> m \<in> {1, 15, 16, 9, 10, 13, 14, 21, 22, 23}"
  by (drule map_of_SomeD) (auto simp: symmetry_pairs_def)

lemma symmetry_table_fixed:
  "m \<in> {1, 15, 16, 9, 10, 13, 14, 21, 22, 23} \<Longrightarrow> symmetry_table m = m"
  by (auto simp: symmetry_table_def symmetry_pairs_def)

lemma symmetry_table_idem: "symmetry_table (symmetry_table v) = symmetry_table v"
proof (cases "map_of symmetry_pairs v")
  case None
  then show ?thesis by (simp add: symmetry_table_def)
next
  case (Some m)
  then have "symmetry_table m = m"
    by (intro symmetry_table_fixed symmetry_table_image)
  with Some show ?thesis by (simp add: symmetry_table_def)
qed

lemma upt_25: "[0..<25] = [0, 1, 2, 3, 4, 5, 6, 7, 8, 9, 10, 11, 12, 13, 14, 15, 16, 17, 18,
    19, 20, 21, 22, 23, 24]"
  by (simp add: upt_rec)

lemma word8_le_24_cases:
  fixes v :: "8 word"
  assumes "v \<le> 24"
  shows "v \<in> set [0, 1, 2, 3, 4, 5, 6, 7, 8, 9, 10, 11, 12, 13, 14, 15, 16, 17, 18,
    19, 20, 21, 22, 23, 24]"
proof -
  have "unat v < 25" using assms by (simp add: word_le_nat_alt)
  then have "unat v \<in> set [0..<25]" by simp
  then have "word_of_nat (unat v) \<in> set (map word_of_nat [0..<25] :: 8 word list)"
    by (simp only: set_map image_eqI)
  then show ?thesis by (simp add: upt_25)
qed

lemma symmetry_table_raw_range:
  "\<forall>v \<in> set [0, 1, 2, 3, 4, 5, 6, 7, 8, 9, 10, 11, 12, 13, 14, 15, 16, 17, 18,
    19, 20, 21, 22, 23, 24]. symmetry_table v \<in> merged_labels"
  by (simp add: symmetry_table_def symmetry_pairs_def merged_labels_def)

lemma symmetry_table_merged: "v \<le> 24 \<Longrightarrow> symmetry_table v \<in> merged_labels"
  using symmetry_table_raw_range word8_le_24_cases by blast

lemma merged_labels_le_23: "v \<in> merged_labels \<Longrightarrow> v \<le> 23"
  by (auto simp: merged_labels_def)

text \<open>
  C1. On a label array with all pixels in 0..24 the ten masked assignments, run in the
  order of the source, give an array of the same shape that is the elementwise image
  of the input under the symmetry table: no assignment touches a value written by an
  earlier one.
\<close>

theorem remap_labels_is_table_lookup:
  assumes "pixels_le 24 A"
  shows "map length (remap_labels A) = map length A
       \<and> remap_labels A = map (map symmetry_table) A"
  by (simp add: remap_labels_lookup comp_def)

theorem remap_labels_is_table_lookup_witness:
  "pixels_le 24 [[0, 2, 7], [17, 24, 23]]
   \<and> map length (remap_labels [[0, 2, 7], [17, 24, 23]]) = [3, 3]
   \<and> remap_labels [[0, 2, 7], [17, 24, 23]] = [[0, 1, 9], [15, 23, 23]]"
proof -
  have h: "pixels_le 24 [[0, 2, 7], [17, 24, 23]]"
    by (simp add: pixels_le_def)
  show ?thesis
    using h remap_labels_is_table_lookup [OF h]
    by (simp add: symmetry_table_def symmetry_pairs_def)
qed

text \<open>
  C2 (as stated: every merged pixel lies in 0..15). The remapping keeps label 23, and
  maps 19 to 21, so the bound 15 fails.
\<close>

theorem merged_range_0_15_counterexample:
  "pixels_le 24 [[19, 23]] \<and> \<not> pixels_le 15 (remap_labels [[19, 23]])"
  by (simp add: pixels_le_def remap_labels_def masked_assign_def)

text \<open>
  C2 (amended). On a label array with all pixels in 0..24, every pixel of the remapped
  array is one of the fifteen labels 0, 1, 3, 4, 5, 6, 9, 10, 13, 14, 15, 16, 21, 22, 23,
  hence lies in 0..23.
\<close>

theorem merged_range_0_23:
  assumes "pixels_le 24 A"
  shows "pixels_in merged_labels (remap_labels A) \<and> pixels_le 23 (remap_labels A)"
proof -
  have "pixels_in merged_labels (remap_labels A)"
    using assms symmetry_table_merged
    by (auto simp: pixels_in_def pixels_le_def remap_labels_lookup)
  moreover from this have "pixels_le 23 (remap_labels A)"
    using merged_labels_le_23 by (auto simp: pixels_in_def pixels_le_def)
  ultimately show ?thesis by simp
qed

theorem merged_range_0_23_witness:
  "pixels_le 24 [[19, 23], [2, 0]]
   \<and> pixels_in merged_labels (remap_labels [[19, 23], [2, 0]])
   \<and> pixels_le 23 (remap_labels [[19, 23], [2, 0]])"
proof -
  have h: "pixels_le 24 [[19, 23], [2, 0]]"
    by (simp add: pixels_le_def)
  show ?thesis
    using h merged_range_0_23 [OF h] by simp
qed

text \<open>
  C8. Every label the remapping produces is a fixed point of the table, so on a label
  array with all pixels in 0..24 remapping the remapped array changes nothing.
\<close>

theorem remap_labels_idempotent:
  assumes "pixels_le 24 A"
  shows "pixels_in {v. symmetry_table v = v} (remap_labels A)
       \<and> remap_labels (remap_labels A) = remap_labels A"
  by (simp add: remap_labels_lookup pixels_in_def symmetry_table_idem)

theorem remap_labels_idempotent_witness:
  "pixels_le 24 [[20, 8], [12, 1]]
   \<and> remap_labels [[20, 8], [12, 1]] = [[22, 10], [14, 1]]
   \<and> remap_labels (remap_labels [[20, 8], [12, 1]]) = [[22, 10], [14, 1]]"
proof -
  have h: "pixels_le 24 [[20, 8], [12, 1]]"
    by (simp add: pixels_le_def)
  have r: "remap_labels [[20, 8], [12, 1]] = [[22, 10], [14, 1]]"
    by (simp add: remap_labels_def masked_assign_def)
  show ?thesis
    using h r remap_labels_idempotent [OF h] by simp
qed

subsection \<open>The colorizer\<close>

lemma corrected_pixelwise:
  "background_correct L (colorize L A) =
     map (map (\<lambda>v. if colormap L (scale_intensity L v) = colormap L 0 then white
                     else colormap L (scale_intensity L v))) A"
  by (simp add: background_correct_def colorize_def comp_def)

lemma scale_intensity_0: "scale_intensity L 0 = 0"
  by (simp add: scale_intensity_def)

lemma corrected_nth:
  assumes "r < length A" "c < length (A ! r)"
  shows "background_correct L (colorize L A) ! r ! c =
           (if colormap L (scale_intensity L (A ! r ! c)) = colormap L 0 then white
            else colormap L (scale_intensity L (A ! r ! c)))"
  using assms by (simp add: corrected_pixelwise)

text \<open>
  C7. If every pixel of the merged label array is 0, the colorizer followed by the
  background correction gives an image of the same shape in which every pixel is
  solid white (255, 255, 255), whatever the colormap.
\<close>

theorem all_background_is_white:
  assumes "pixels_le 0 A"
  shows "background_correct L (colorize L A) = map (map (\<lambda>_. (255, 255, 255))) A"
proof -
  have z: "v = 0" if "row \<in> set A" "v \<in> set row" for row v
    using assms that by (auto simp: pixels_le_def)
  show ?thesis
    unfolding corrected_pixelwise
  proof (rule map_cong [OF refl], rule map_cong [OF refl])
    fix row v assume "row \<in> set A" "v \<in> set row"
    then have "v = 0" by (rule z)
    then show "(if colormap L (scale_intensity L v) = colormap L 0 then white
                else colormap L (scale_intensity L v)) = (255, 255, 255)"
      by (simp add: scale_intensity_0 white_def)
  qed
qed

theorem all_background_is_white_witness:
  "pixels_le 0 [[0, 0, 0], [0, 0, 0]]
   \<and> background_correct coarse_cv2 (colorize coarse_cv2 [[0, 0, 0], [0, 0, 0]]) =
       [[(255, 255, 255), (255, 255, 255), (255, 255, 255)],
        [(255, 255, 255), (255, 255, 255), (255, 255, 255)]]"
proof -
  have h: "pixels_le 0 [[0, 0, 0], [0, 0, 0]]"
    by (simp add: pixels_le_def)
  show ?thesis
    using h all_background_is_white [OF h, of coarse_cv2] by simp
qed

subsection \<open>The compositing\<close>

lemma slice_bounds_inside:
  "0 \<le> s \<Longrightarrow> s \<le> e \<Longrightarrow> e \<le> int n \<Longrightarrow> slice_bounds s e n = (nat s, nat (e - s))"
  by (simp add: slice_bounds_def Let_def)

lemma sint32_add:
  fixes a b :: "32 word"
  assumes "- (2 ^ 31) \<le> sint a + sint b" "sint a + sint b < 2 ^ 31"
  shows "sint (a + b) = sint a + sint b"
  using assms by (simp add: sint_word_ariths signed_take_bit_int_eq_self)

lemma width_rect: "A \<noteq> [] \<Longrightarrow> \<forall>row \<in> set A. length row = n \<Longrightarrow> width A = n"
  by (cases A) (simp_all add: width_def)

lemma composite_inside:
  fixes bb :: bbox
  defines "x \<equiv> sint (box_x bb)" and "y \<equiv> sint (box_y bb)"
      and "w \<equiv> sint (box_w bb)" and "h \<equiv> sint (box_h bb)"
  assumes pos: "0 \<le> x" "0 \<le> y" "0 < w" "0 < h"
      and fit: "x + w \<le> int W" "y + h \<le> int H"
      and dims: "W < 2 ^ 31" "H < 2 ^ 31"
      and shape: "length I = nat h" "\<forall>row \<in> set I. length row = nat w"
  shows "\<exists>canvas. composite (H, W) bb I = Inr canvas
           \<and> length canvas = H \<and> (\<forall>row \<in> set canvas. length row = W)
           \<and> (\<forall>r < H. \<forall>c < W. canvas ! r ! c =
                 (if nat y \<le> r \<and> r < nat (y + h) \<and> nat x \<le> c \<and> c < nat (x + w)
                  then I ! (r - nat y) ! (c - nat x) else (255, 255, 255)))"
proof -
  have sx: "sint (box_x bb + box_w bb) = x + w"
    unfolding x_def w_def using pos fit dims
    by (intro sint32_add) (simp_all add: x_def w_def)
  have sy: "sint (box_y bb + box_h bb) = y + h"
    unfolding y_def h_def using pos fit dims
    by (intro sint32_add) (simp_all add: y_def h_def)
  have rows: "slice_bounds y (y + h) H = (nat y, nat h)"
    using pos fit by (simp add: slice_bounds_inside)
  have cols: "slice_bounds x (x + w) W = (nat x, nat w)"
    using pos fit by (simp add: slice_bounds_inside)
  have ne: "I \<noteq> []" using shape pos by auto
  have wd: "width I = nat w" using ne shape by (simp add: width_rect)
  let ?canvas = "map (\<lambda>r. map (\<lambda>c.
                if nat y \<le> r \<and> r < nat y + nat h \<and> nat x \<le> c \<and> c < nat x + nat w
                then I ! (if nat h = 1 then 0 else r - nat y) ! (if nat w = 1 then 0 else c - nat x)
                else replicate H (replicate W white) ! r ! c) [0..<W]) [0..<H]"
  have eq: "composite (H, W) bb I = Inr ?canvas"
    unfolding composite_def assign_region_def Let_def
    using rows cols wd shape(1) sx sy
    by (simp add: x_def [symmetric] y_def [symmetric])
  have px: "?canvas ! r ! c =
                 (if nat y \<le> r \<and> r < nat (y + h) \<and> nat x \<le> c \<and> c < nat (x + w)
                  then I ! (r - nat y) ! (c - nat x) else (255, 255, 255))" if "r < H" "c < W" for r c
    using that pos by (auto simp: nat_add_distrib white_def)
  show ?thesis
    using eq px by (intro exI [of _ ?canvas]) simp
qed

text \<open>
  C6. For a bounding box inside a source image of height \<open>H\<close> and width \<open>W\<close> (the extents
  of an OpenCV image, below \<open>2 ^ 31\<close>) and a colorized image of shape \<open>(h, w)\<close>, the
  compositing step succeeds; the canvas has \<open>H\<close> rows of \<open>W\<close> pixels; the region
  \<open>[y:y+h, x:x+w]\<close> holds the colorized image and every other pixel is solid white.
\<close>

theorem composite_places_image:
  fixes bb :: bbox
  defines "x \<equiv> sint (box_x bb)" and "y \<equiv> sint (box_y bb)"
      and "w \<equiv> sint (box_w bb)" and "h \<equiv> sint (box_h bb)"
  assumes pos: "0 \<le> x" "0 \<le> y" "0 < w" "0 < h"
      and fit: "x + w \<le> int W" "y + h \<le> int H"
      and dims: "W < 2 ^ 31" "H < 2 ^ 31"
      and shape: "length I = nat h" "\<forall>row \<in> set I. length row = nat w"
  shows "\<exists>canvas. composite (H, W) bb I = Inr canvas
           \<and> length canvas = H \<and> (\<forall>row \<in> set canvas. length row = W)
           \<and> (\<forall>r < H. \<forall>c < W. canvas ! r ! c =
                 (if nat y \<le> r \<and> r < nat (y + h) \<and> nat x \<le> c \<and> c < nat (x + w)
                  then I ! (r - nat y) ! (c - nat x) else (255, 255, 255)))"
  using pos fit dims shape unfolding x_def y_def w_def h_def
  by (rule composite_inside)

theorem composite_places_image_witness:
  "0 \<le> sint (1 :: 32 word) \<and> 0 < sint (2 :: 32 word) \<and> 0 < sint (1 :: 32 word)
   \<and> sint (1 :: 32 word) + sint (2 :: 32 word) \<le> int 4
   \<and> sint (1 :: 32 word) + sint (1 :: 32 word) \<le> int 3
   \<and> (\<exists>canvas.
         composite (3, 4) \<lparr>box_x = 1, box_y = 1, box_w = 2, box_h = 1\<rparr> [[(1, 2, 3), (4, 5, 6)]]
           = Inr canvas
         \<and> length canvas = 3 \<and> (\<forall>row \<in> set canvas. length row = 4)
         \<and> (\<forall>r < 3. \<forall>c < 4. canvas ! r ! c =
               (if 1 \<le> r \<and> r < 2 \<and> 1 \<le> c \<and> c < 3
                then [[(1, 2, 3), (4, 5, 6)]] ! (r - 1) ! (c - 1) else (255, 255, 255))))"
  using composite_places_image
    [of "\<lparr>box_x = 1, box_y = 1, box_w = 2, box_h = 1\<rparr>" 4 3 "[[(1, 2, 3), (4, 5, 6)]]"]
  by (simp cong del: if_weak_cong)

subsection \<open>Shapes, the loop over the parts and the emitted files\<close>




lemma find_body_part_eq:
  "find_body_part L a i s =
     (fst (findContours L (mask_eq i (mask_ne i (labs s ! a)))),
      s\<lparr>labs := labs s @ [snd (findContours L (mask_eq i (mask_ne i (labs s ! a))))]\<rparr>)"
  by (simp add: find_body_part_def Let_def split_beta)

lemma has_shape_map [simp]: "has_shape (map (map f) A) h w = has_shape A h w"
  by (auto simp: has_shape_def)

lemma zeros_like_shape [simp]: "has_shape (zeros_like A) h w = has_shape A h w"
  by (simp add: zeros_like_def)

lemma bitwise_not_shape [simp]: "has_shape (bitwise_not A) h w = has_shape A h w"
  by (simp add: bitwise_not_def)

lemma drawContours_lengths:
  "map length (drawContours L img cs col th) = map length img"
proof -
  have "map length (drawContours L img cs col th) = map (length \<circ> snd) (enumerate 0 img)"
    by (simp add: drawContours_def split_beta comp_def)
  also have "\<dots> = map length (map snd (enumerate 0 img))" by (simp only: map_map)
  also have "\<dots> = map length img" by (simp only: map_snd_enumerate)
  finally show ?thesis .
qed

lemma has_shape_alt: "has_shape A h w = (length A = h \<and> (\<forall>n \<in> set (map length A). n = w))"
  by (auto simp: has_shape_def)

lemma drawContours_shape [simp]:
  "has_shape (drawContours L img cs col th) h w = has_shape img h w"
  unfolding has_shape_alt drawContours_lengths
  by (simp add: drawContours_def)

lemma has_shape_width: "has_shape A h w \<Longrightarrow> 0 < h \<Longrightarrow> width A = w"
  by (cases A) (auto simp: has_shape_def width_def)

lemma scaled_dim_small: "n < 2 ^ 30 \<Longrightarrow> scaled_dim n = Inr (2 * n)"
proof -
  assume n: "n < 2 ^ 30"
  have q: "n * 200 div 100 = 2 * n" by simp
  have "2 * n < (2 :: nat) ^ 53" using n by simp
  then have nd: "nearest_double (2 * n) = 2 * n" by (simp add: nearest_double_def)
  have "(2 :: nat) ^ 31 \<le> 2 ^ 1024" by (rule power_increasing) simp_all
  then have "2 * n < (2 :: nat) ^ 1024" using n by simp
  then show ?thesis unfolding scaled_dim_def Let_def q nd by simp
qed

lemma double_image_ok:
  assumes "has_shape img h w" "0 < h" "0 < w" "h < 2 ^ 30" "w < 2 ^ 30"
  shows "double_image L img =
           Inr (map (\<lambda>r. map (\<lambda>c. resample L img (2 * w, 2 * h) r c) [0..<2 * w]) [0..<2 * h])"
proof -
  have l: "length img = h" and wd: "width img = w"
    using assms has_shape_width by (auto simp: has_shape_def)
  have ne: "img \<noteq> []" using l assms(2) by auto
  show ?thesis
    unfolding double_image_def l wd scaled_dim_small [OF assms(4)] scaled_dim_small [OF assms(5)]
    using assms ne wd by (simp add: cv2_resize_def)
qed

lemma double_image_shape:
  assumes "has_shape img h w" "0 < h" "0 < w" "h < 2 ^ 30" "w < 2 ^ 30"
  shows "\<exists>big. double_image L img = Inr big \<and> has_shape big (2 * h) (2 * w)"
  unfolding double_image_ok [OF assms] by (simp add: has_shape_def)


lemma part_step_props:
  assumes "part_step L im oo (blank, s) i = (blank', s')"
  shows "\<exists>ys. labs s' = labs s @ ys"
    and "log s' = log s" and "dirs s' = dirs s" and "entry_idx s' = entry_idx s"
    and "length (imgs s') = length (imgs s)"
    and "has_shape blank' h w = has_shape blank h w"
    and "im < length (imgs s) \<Longrightarrow> has_shape (imgs s' ! im) h w = has_shape (imgs s ! im) h w"
    and "j \<noteq> im \<Longrightarrow> imgs s' ! j = imgs s ! j"
  using assms
  by (auto simp: part_step_def find_body_part_eq Let_def split: if_splits)

lemma part_loop_props:
  assumes "part_loop L im oo (blank, s) parts = (blank', s')"
  shows "(\<exists>ys. labs s' = labs s @ ys)
       \<and> log s' = log s \<and> dirs s' = dirs s \<and> entry_idx s' = entry_idx s
       \<and> length (imgs s') = length (imgs s)
       \<and> has_shape blank' h w = has_shape blank h w
       \<and> (im < length (imgs s) \<longrightarrow> has_shape (imgs s' ! im) h w = has_shape (imgs s ! im) h w)
       \<and> (\<forall>j. j \<noteq> im \<longrightarrow> imgs s' ! j = imgs s ! j)"
  using assms
proof (induction parts arbitrary: blank s)
  case Nil
  then show ?case by (simp add: part_loop_def)
next
  case (Cons i parts)
  obtain b1 s1 where st: "part_step L im oo (blank, s) i = (b1, s1)"
    by (cases "part_step L im oo (blank, s) i") auto
  with Cons.prems have rest: "part_loop L im oo (b1, s1) parts = (blank', s')"
    by (simp add: part_loop_def)
  note ih = Cons.IH [OF rest]
  note p = part_step_props [OF st]
  from ih p(1) have "\<exists>ys. labs s' = labs s @ ys" by auto
  moreover from ih p(2-5) have "log s' = log s \<and> dirs s' = dirs s \<and> entry_idx s' = entry_idx s
       \<and> length (imgs s') = length (imgs s)" by simp
  moreover from ih p(6) have "has_shape blank' h w = has_shape blank h w" by simp
  moreover from ih p(5,7) have "im < length (imgs s) \<longrightarrow>
      has_shape (imgs s' ! im) h w = has_shape (imgs s ! im) h w" by simp
  moreover from ih p(8) have "\<forall>j. j \<noteq> im \<longrightarrow> imgs s' ! j = imgs s ! j" by simp
  ultimately show ?case by blast
qed


lemma part_step_labs:
  assumes "part_step L im oo (blank, s) i = (blank', s')"
  shows "labs s' = labs s @ [snd (findContours L (mask_eq i (mask_ne i (labs s ! oo))))]"
  using assms
  by (auto simp: part_step_def find_body_part_eq Let_def split: if_splits)

lemma part_loop_labs:
  assumes "part_loop L im oo (blank, s) parts = (blank', s')" and "oo < length (labs s)"
  shows "labs s' = labs s @
           map (\<lambda>i. snd (findContours L (mask_eq i (mask_ne i (labs s ! oo))))) parts"
  using assms
proof (induction parts arbitrary: blank s)
  case Nil
  then show ?case by (simp add: part_loop_def)
next
  case (Cons i parts)
  obtain b1 s1 where st: "part_step L im oo (blank, s) i = (b1, s1)"
    by (cases "part_step L im oo (blank, s) i") auto
  with Cons.prems have rest: "part_loop L im oo (b1, s1) parts = (blank', s')"
    by (simp add: part_loop_def)
  note l1 = part_step_labs [OF st]
  with Cons.prems(2) have oo1: "oo < length (labs s1)" and same: "labs s1 ! oo = labs s ! oo"
    by (simp_all add: nth_append)
  from Cons.IH [OF rest oo1] l1 same show ?case by simp
qed

lemma generate_bitmaps_ok:
  assumes im: "im < length (imgs s)"
      and sh: "has_shape (imgs s ! im) h w"
      and bounds: "0 < h" "0 < w" "h < 2 ^ 30" "w < 2 ^ 30"
  shows "\<exists>b1 b2 b4 b5 s'.
           generate_bitmaps L prefix im oo ol s = (None, s')
         \<and> log s' = log s @
             [Imwrite (''/content/'' @ prefix @ ''blank.bmp'') (Colour b1),
              Popen (autotrace_cmd (''/content/'' @ prefix @ ''blank.bmp'')
                                   (''/content/'' @ prefix @ ''blank.svg'')),
              Imwrite (''/content/'' @ prefix @ ''image.bmp'') (Colour b2),
              Popen (autotrace_cmd (''/content/'' @ prefix @ ''image.bmp'')
                                   (''/content/'' @ prefix @ ''image.svg'')),
              Imwrite (''/content/'' @ prefix @ ''image_bw.bmp'') (Plane (map (map (gray_of L)) b2)),
              Popen (autotrace_cmd (''/content/'' @ prefix @ ''image_bw.bmp'')
                                   (''/content/'' @ prefix @ ''image_bw.svg'')),
              Imwrite (''/content/'' @ prefix @ ''blank_outline.bmp'') (Colour b4),
              Popen (autotrace_cmd (''/content/'' @ prefix @ ''blank_outline.bmp'')
                                   (''/content/'' @ prefix @ ''blank_outline.svg'')),
              Imwrite (''/content/'' @ prefix @ ''solid_outline.bmp'') (Colour b5),
              Popen (autotrace_cmd (''/content/'' @ prefix @ ''solid_outline.bmp'')
                                   (''/content/'' @ prefix @ ''solid_outline.svg''))]
         \<and> (\<forall>b \<in> {b1, b2, b4, b5}. has_shape b (2 * h) (2 * w)
               \<and> (\<exists>src. has_shape src h w \<and> double_image L src = Inr b))
         \<and> (oo < length (labs s) \<and> ol < length (labs s) \<longrightarrow>
              labs s' = labs s @
                map (\<lambda>i. snd (findContours L (mask_eq i (mask_ne i (labs s ! oo))))) [1..23] @
                [snd (findContours L (mask_eq 1 (mask_ne 1 (labs s ! ol))))])
         \<and> dirs s' = dirs s \<and> entry_idx s' = entry_idx s"
proof -
  obtain blank1 s1 where pl:
    "part_loop L im oo (zeros_like (imgs s ! im), s) [1..23] = (blank1, s1)"
    by (cases "part_loop L im oo (zeros_like (imgs s ! im), s) [1..23]") auto
  note p = part_loop_props [OF pl, of h w]
  from p sh im have sh_blank: "has_shape (bitwise_not blank1) h w"
    and sh_img: "has_shape (imgs s1 ! im) h w" by simp_all
  from p have log1: "log s1 = log s" and d1: "dirs s1 = dirs s"
    and e1: "entry_idx s1 = entry_idx s" by simp_all
  from p obtain ys where l1: "labs s1 = labs s @ ys" by blast
  define cs where "cs = fst (findContours L (mask_eq 1 (mask_ne 1 (labs s1 ! ol))))"
  define left where "left = snd (findContours L (mask_eq 1 (mask_ne 1 (labs s1 ! ol))))"
  define bo where "bo = bitwise_not (if 0 < length cs
      then drawContours L (zeros_like (imgs s ! im)) cs (255, 255, 255) 2
      else zeros_like (imgs s ! im))"
  define so where "so = bitwise_not (if 0 < length cs
      then drawContours L (zeros_like (imgs s ! im)) cs (255, 255, 255) (- 1)
      else zeros_like (imgs s ! im))"
  have sh_bo: "has_shape bo h w" and sh_so: "has_shape so h w"
    using sh by (simp_all add: bo_def so_def)
  note di1 = double_image_ok [OF sh_blank bounds, of L]
  note di2 = double_image_ok [OF sh_img bounds, of L]
  note di4 = double_image_ok [OF sh_bo bounds, of L]
  note di5 = double_image_ok [OF sh_so bounds, of L]
  obtain b1 where b1: "double_image L (bitwise_not blank1) = Inr b1" using di1 by simp
  obtain b2 where b2: "double_image L (imgs s1 ! im) = Inr b2" using di2 by simp
  obtain b4 where b4: "double_image L bo = Inr b4" using di4 by simp
  obtain b5 where b5: "double_image L so = Inr b5" using di5 by simp
  have shapes: "has_shape b1 (2 * h) (2 * w)" "has_shape b2 (2 * h) (2 * w)"
      "has_shape b4 (2 * h) (2 * w)" "has_shape b5 (2 * h) (2 * w)"
    using double_image_shape [OF sh_blank bounds, of L] double_image_shape [OF sh_img bounds, of L]
      double_image_shape [OF sh_bo bounds, of L] double_image_shape [OF sh_so bounds, of L]
      b1 b2 b4 b5 by simp_all
  let ?s' = "generate_vector (''/content/'' @ prefix @ ''solid_outline.bmp'')
                              (''/content/'' @ prefix @ ''solid_outline.svg'')
      (imwrite (''/content/'' @ prefix @ ''solid_outline.bmp'') (Colour b5)
      (generate_vector (''/content/'' @ prefix @ ''blank_outline.bmp'')
                              (''/content/'' @ prefix @ ''blank_outline.svg'')
      (imwrite (''/content/'' @ prefix @ ''blank_outline.bmp'') (Colour b4)
      ((generate_vector (''/content/'' @ prefix @ ''image_bw.bmp'')
                              (''/content/'' @ prefix @ ''image_bw.svg'')
      (imwrite (''/content/'' @ prefix @ ''image_bw.bmp'') (Plane (map (map (gray_of L)) b2))
      (generate_vector (''/content/'' @ prefix @ ''image.bmp'')
                              (''/content/'' @ prefix @ ''image.svg'')
      (imwrite (''/content/'' @ prefix @ ''image.bmp'') (Colour b2)
      (generate_vector (''/content/'' @ prefix @ ''blank.bmp'')
                              (''/content/'' @ prefix @ ''blank.svg'')
      (imwrite (''/content/'' @ prefix @ ''blank.bmp'') (Colour b1) s1))))))
         \<lparr>labs := labs s1 @ [left]\<rparr>))))"
  have run: "generate_bitmaps L prefix im oo ol s = (None, ?s')"
  proof (cases "cs = []")
    case True
    with b4 b5 have
      "double_image L (bitwise_not (zeros_like (imgs s ! im))) = Inr b4"
      "double_image L (bitwise_not (zeros_like (imgs s ! im))) = Inr b5"
      by (simp_all add: bo_def so_def)
    with True show ?thesis
      unfolding generate_bitmaps_def Let_def pl split_conv b1 sum.case
      by (simp add: imwrite_def generate_vector_def b2 find_body_part_eq
          cs_def [symmetric] left_def [symmetric] split_beta)
  next
    case False
    with b4 b5 have
      "double_image L (bitwise_not
         (drawContours L (zeros_like (imgs s ! im)) cs (255, 255, 255) 2)) = Inr b4"
      "double_image L (bitwise_not
         (drawContours L (zeros_like (imgs s ! im)) cs (255, 255, 255) (- 1))) = Inr b5"
      by (simp_all add: bo_def so_def)
    with False show ?thesis
      unfolding generate_bitmaps_def Let_def pl split_conv b1 sum.case
      by (simp add: imwrite_def generate_vector_def b2 find_body_part_eq
          cs_def [symmetric] left_def [symmetric] split_beta)
  qed
  have "log ?s' = log s @
             [Imwrite (''/content/'' @ prefix @ ''blank.bmp'') (Colour b1),
              Popen (autotrace_cmd (''/content/'' @ prefix @ ''blank.bmp'')
                                   (''/content/'' @ prefix @ ''blank.svg'')),
              Imwrite (''/content/'' @ prefix @ ''image.bmp'') (Colour b2),
              Popen (autotrace_cmd (''/content/'' @ prefix @ ''image.bmp'')
                                   (''/content/'' @ prefix @ ''image.svg'')),
              Imwrite (''/content/'' @ prefix @ ''image_bw.bmp'') (Plane (map (map (gray_of L)) b2)),
              Popen (autotrace_cmd (''/content/'' @ prefix @ ''image_bw.bmp'')
                                   (''/content/'' @ prefix @ ''image_bw.svg'')),
              Imwrite (''/content/'' @ prefix @ ''blank_outline.bmp'') (Colour b4),
              Popen (autotrace_cmd (''/content/'' @ prefix @ ''blank_outline.bmp'')
                                   (''/content/'' @ prefix @ ''blank_outline.svg'')),
              Imwrite (''/content/'' @ prefix @ ''solid_outline.bmp'') (Colour b5),
              Popen (autotrace_cmd (''/content/'' @ prefix @ ''solid_outline.bmp'')
                                   (''/content/'' @ prefix @ ''solid_outline.svg''))]"
    by (simp add: imwrite_def generate_vector_def log1)
  moreover have "\<forall>b \<in> {b1, b2, b4, b5}. has_shape b (2 * h) (2 * w)
               \<and> (\<exists>src. has_shape src h w \<and> double_image L src = Inr b)"
    using shapes sh_blank sh_img sh_bo sh_so b1 b2 b4 b5 by blast
  moreover have "oo < length (labs s) \<and> ol < length (labs s) \<longrightarrow>
              labs ?s' = labs s @
                map (\<lambda>i. snd (findContours L (mask_eq i (mask_ne i (labs s ! oo))))) [1..23] @
                [snd (findContours L (mask_eq 1 (mask_ne 1 (labs s ! ol))))]"
  proof
    assume a: "oo < length (labs s) \<and> ol < length (labs s)"
    then have l1': "labs s1 = labs s @
        map (\<lambda>i. snd (findContours L (mask_eq i (mask_ne i (labs s ! oo))))) [1..23]"
      using part_loop_labs [OF pl] by simp
    with a have "labs s1 ! ol = labs s ! ol" by (simp add: nth_append)
    then show "labs ?s' = labs s @
                map (\<lambda>i. snd (findContours L (mask_eq i (mask_ne i (labs s ! oo))))) [1..23] @
                [snd (findContours L (mask_eq 1 (mask_ne 1 (labs s ! ol))))]"
      by (simp add: imwrite_def generate_vector_def l1' left_def)
  qed
  moreover have "dirs ?s' = dirs s \<and> entry_idx ?s' = entry_idx s"
    by (simp add: imwrite_def generate_vector_def d1 e1)
  ultimately show ?thesis using run by blast
qed

subsection \<open>The run of \<^verbatim>\<open>execute_on_outputs\<close>\<close>


lemma remap_shape [simp]: "has_shape (remap_labels A) h w = has_shape A h w"
  by (simp add: remap_labels_lookup)

lemma load_labels_shape [simp]: "has_shape (load_labels raw) h w = has_shape raw h w"
  by (simp add: load_labels_def)

lemma colorized_shape [simp]:
  "has_shape (background_correct L (colorize L A)) h w = has_shape A h w"
  by (simp add: corrected_pixelwise)

lemma ensure_results_dir_props:
  assumes "ensure_results_dir s = Inr s1"
  shows "labs s1 = labs s" "imgs s1 = imgs s" "log s1 = log s" "entry_idx s1 = entry_idx s"
    "''/content/results'' \<in> set (dirs s1)"
  using assms by (auto simp: ensure_results_dir_def split: if_splits)

lemma ensure_results_dir_ok:
  assumes "''/content/results'' \<in> set (dirs s) \<or> ''/content'' \<in> set (dirs s)"
  shows "\<exists>s1. ensure_results_dir s = Inr s1"
  using assms by (auto simp: ensure_results_dir_def)

lemma execute_composite_fails:
  assumes dirs: "ensure_results_dir s = Inr s1"
      and dims: "0 < H" "0 < W"
      and fails: "composite (H, W) bb
                    (background_correct L (colorize L (remap_labels (load_labels raw)))) = Inl e"
  shows "execute_on_outputs L (H, W) stem raw bb s =
          (Some e,
           s1\<lparr>labs := labs s1 @ [remap_labels (load_labels raw),
                                 threshold_positive (remap_labels (load_labels raw))],
              log := log s1 @
                [NpSave ''/content/output_orig.npy'' (Plane (remap_labels (load_labels raw))),
                 NpSave ''/content/output_outline.npy''
                   (Plane (threshold_positive (remap_labels (load_labels raw))))]\<rparr>)"
  using dirs dims fails
  by (simp add: execute_on_outputs_def Let_def np_save_def nth_append list_update_append)

lemma execute_composite_ok:
  assumes dirs: "ensure_results_dir s = Inr s1"
      and dims: "0 < H" "0 < W"
      and ok: "composite (H, W) bb
                    (background_correct L (colorize L (remap_labels (load_labels raw)))) = Inr canvas"
      and shape: "has_shape raw h w"
      and bounds: "0 < h" "0 < w" "h < 2 ^ 30" "w < 2 ^ 30"
  shows "\<exists>b1 b2 b4 b5 s'.
          execute_on_outputs L (H, W) stem raw bb s = (None, s')
        \<and> log s' = log s @
             [NpSave ''/content/output_orig.npy'' (Plane (remap_labels (load_labels raw))),
              NpSave ''/content/output_outline.npy''
                (Plane (threshold_positive (remap_labels (load_labels raw)))),
              NpSave (''/content/'' @ (''/results/'' @ stem @ ''_'') @ ''output.npy'')
                (Colour (background_correct L (colorize L (remap_labels (load_labels raw))))),
              Imwrite ''/content/results/mytest.jpg'' (Colour canvas),
              Imwrite (''/content/'' @ (''/results/'' @ stem @ ''_'') @ ''blank.bmp'') (Colour b1),
              Popen (autotrace_cmd (''/content/'' @ (''/results/'' @ stem @ ''_'') @ ''blank.bmp'')
                                   (''/content/'' @ (''/results/'' @ stem @ ''_'') @ ''blank.svg'')),
              Imwrite (''/content/'' @ (''/results/'' @ stem @ ''_'') @ ''image.bmp'') (Colour b2),
              Popen (autotrace_cmd (''/content/'' @ (''/results/'' @ stem @ ''_'') @ ''image.bmp'')
                                   (''/content/'' @ (''/results/'' @ stem @ ''_'') @ ''image.svg'')),
              Imwrite (''/content/'' @ (''/results/'' @ stem @ ''_'') @ ''image_bw.bmp'')
                (Plane (map (map (gray_of L)) b2)),
              Popen (autotrace_cmd (''/content/'' @ (''/results/'' @ stem @ ''_'') @ ''image_bw.bmp'')
                                   (''/content/'' @ (''/results/'' @ stem @ ''_'') @ ''image_bw.svg'')),
              Imwrite (''/content/'' @ (''/results/'' @ stem @ ''_'') @ ''blank_outline.bmp'') (Colour b4),
              Popen (autotrace_cmd (''/content/'' @ (''/results/'' @ stem @ ''_'') @ ''blank_outline.bmp'')
                                   (''/content/'' @ (''/results/'' @ stem @ ''_'') @ ''blank_outline.svg'')),
              Imwrite (''/content/'' @ (''/results/'' @ stem @ ''_'') @ ''solid_outline.bmp'') (Colour b5),
              Popen (autotrace_cmd (''/content/'' @ (''/results/'' @ stem @ ''_'') @ ''solid_outline.bmp'')
                                   (''/content/'' @ (''/results/'' @ stem @ ''_'') @ ''solid_outline.svg''))]
        \<and> (\<forall>b \<in> {b1, b2, b4, b5}. has_shape b (2 * h) (2 * w)
               \<and> (\<exists>src. has_shape src h w \<and> double_image L src = Inr b))
        \<and> labs s' = labs s @
             [remap_labels (load_labels raw),
              threshold_positive (remap_labels (load_labels raw))] @
             map (\<lambda>i. snd (findContours L
                    (mask_eq i (mask_ne i (remap_labels (load_labels raw)))))) [1..23] @
             [snd (findContours L
                    (mask_eq 1 (mask_ne 1 (threshold_positive (remap_labels (load_labels raw))))))]
        \<and> entry_idx s' = entry_idx s + 1"
proof -
  define I where "I = remap_labels (load_labels raw)"
  define C where "C = background_correct L (colorize L I)"
  define prefix where "prefix = ''/results/'' @ stem @ ''_''"
  define s2 where "s2 =
     imwrite ''/content/results/mytest.jpg'' (Colour canvas)
      (np_save (''/content/'' @ prefix @ ''output.npy'') (Colour C)
        (s1\<lparr>labs := labs s1 @ [I, threshold_positive I],
            log := log s1 @ [NpSave ''/content/output_orig.npy'' (Plane I),
                            NpSave ''/content/output_outline.npy'' (Plane (threshold_positive I))],
            imgs := imgs s1 @ [C]\<rparr>))"
  note d = ensure_results_dir_props [OF dirs]
  have im: "length (imgs s) < length (imgs s2)"
    by (simp add: s2_def imwrite_def np_save_def d)
  have shC: "has_shape (imgs s2 ! length (imgs s)) h w"
    using shape by (simp add: s2_def imwrite_def np_save_def C_def I_def d)
  from generate_bitmaps_ok [OF im shC bounds, of L prefix "length (labs s)" "Suc (length (labs s))"]
  obtain b1 b2 b4 b5 s3 where
    g: "generate_bitmaps L prefix (length (imgs s)) (length (labs s)) (Suc (length (labs s))) s2
          = (None, s3)"
    and lg: "log s3 = log s2 @
             [Imwrite (''/content/'' @ prefix @ ''blank.bmp'') (Colour b1),
              Popen (autotrace_cmd (''/content/'' @ prefix @ ''blank.bmp'')
                                   (''/content/'' @ prefix @ ''blank.svg'')),
              Imwrite (''/content/'' @ prefix @ ''image.bmp'') (Colour b2),
              Popen (autotrace_cmd (''/content/'' @ prefix @ ''image.bmp'')
                                   (''/content/'' @ prefix @ ''image.svg'')),
              Imwrite (''/content/'' @ prefix @ ''image_bw.bmp'') (Plane (map (map (gray_of L)) b2)),
              Popen (autotrace_cmd (''/content/'' @ prefix @ ''image_bw.bmp'')
                                   (''/content/'' @ prefix @ ''image_bw.svg'')),
              Imwrite (''/content/'' @ prefix @ ''blank_outline.bmp'') (Colour b4),
              Popen (autotrace_cmd (''/content/'' @ prefix @ ''blank_outline.bmp'')
                                   (''/content/'' @ prefix @ ''blank_outline.svg'')),
              Imwrite (''/content/'' @ prefix @ ''solid_outline.bmp'') (Colour b5),
              Popen (autotrace_cmd (''/content/'' @ prefix @ ''solid_outline.bmp'')
                                   (''/content/'' @ prefix @ ''solid_outline.svg''))]"
    and sh: "\<forall>b \<in> {b1, b2, b4, b5}. has_shape b (2 * h) (2 * w)
               \<and> (\<exists>src. has_shape src h w \<and> double_image L src = Inr b)"
    and lb: "length (labs s) < length (labs s2) \<and> Suc (length (labs s)) < length (labs s2) \<longrightarrow>
              labs s3 = labs s2 @
                map (\<lambda>i. snd (findContours L (mask_eq i (mask_ne i (labs s2 ! length (labs s))))))
                  [1..23] @
                [snd (findContours L (mask_eq 1 (mask_ne 1 (labs s2 ! Suc (length (labs s))))))]"
    and ei: "entry_idx s3 = entry_idx s2"
    by blast
  have labs2: "labs s2 = labs s @ [I, threshold_positive I]"
    by (simp add: s2_def imwrite_def np_save_def d)
  have labs3: "labs s3 = labs s @ [I, threshold_positive I] @
                map (\<lambda>i. snd (findContours L (mask_eq i (mask_ne i I)))) [1..23] @
                [snd (findContours L (mask_eq 1 (mask_ne 1 (threshold_positive I))))]"
    using lb by (simp add: labs2 nth_append)
  have run: "execute_on_outputs L (H, W) stem raw bb s = (None, s3\<lparr>entry_idx := entry_idx s3 + 1\<rparr>)"
  proof -
    have "execute_on_outputs L (H, W) stem raw bb s =
        (case generate_bitmaps L prefix (length (imgs s)) (length (labs s)) (Suc (length (labs s))) s2 of
           (Some e, s) \<Rightarrow> (Some e, s)
         | (None, s) \<Rightarrow> (None, s\<lparr>entry_idx := entry_idx s + 1\<rparr>))"
      using dirs dims ok
      by (simp add: execute_on_outputs_def Let_def np_save_def imwrite_def nth_append list_update_append
          s2_def I_def C_def prefix_def d)
    then show ?thesis by (simp add: g)
  qed
  have l2: "log s2 = log s @ [NpSave ''/content/output_orig.npy'' (Plane I),
                            NpSave ''/content/output_outline.npy'' (Plane (threshold_positive I)),
                            NpSave (''/content/'' @ prefix @ ''output.npy'') (Colour C),
                            Imwrite ''/content/results/mytest.jpg'' (Colour canvas)]"
    by (simp add: s2_def imwrite_def np_save_def d)
  have e2: "entry_idx s2 = entry_idx s"
    by (simp add: s2_def imwrite_def np_save_def d)
  show ?thesis
    apply (rule exI [of _ b1], rule exI [of _ b2], rule exI [of _ b4], rule exI [of _ b5])
    apply (rule exI [of _ "s3\<lparr>entry_idx := entry_idx s3 + 1\<rparr>"])
    using run sh lg l2 ei e2 labs3
    by (simp add: I_def C_def prefix_def)
qed

lemma fresh_dir:
  "ensure_results_dir fresh_state = Inr (fresh_state\<lparr>dirs := [''/content'', ''/content/results'']\<rparr>)"
  by (simp add: ensure_results_dir_def fresh_state_def)

lemma execute_valid_run:
  fixes bb :: bbox
  assumes v: "valid_run s (H, W) bb raw"
  shows "\<exists>canvas b1 b2 b4 b5 s'.
          composite (H, W) bb
            (background_correct L (colorize L (remap_labels (load_labels raw)))) = Inr canvas
        \<and> has_shape canvas H W
        \<and> execute_on_outputs L (H, W) stem raw bb s = (None, s')
        \<and> log s' = log s @
             [NpSave ''/content/output_orig.npy'' (Plane (remap_labels (load_labels raw))),
              NpSave ''/content/output_outline.npy''
                (Plane (threshold_positive (remap_labels (load_labels raw)))),
              NpSave (''/content/'' @ (''/results/'' @ stem @ ''_'') @ ''output.npy'')
                (Colour (background_correct L (colorize L (remap_labels (load_labels raw))))),
              Imwrite ''/content/results/mytest.jpg'' (Colour canvas),
              Imwrite (''/content/'' @ (''/results/'' @ stem @ ''_'') @ ''blank.bmp'') (Colour b1),
              Popen (autotrace_cmd (''/content/'' @ (''/results/'' @ stem @ ''_'') @ ''blank.bmp'')
                                   (''/content/'' @ (''/results/'' @ stem @ ''_'') @ ''blank.svg'')),
              Imwrite (''/content/'' @ (''/results/'' @ stem @ ''_'') @ ''image.bmp'') (Colour b2),
              Popen (autotrace_cmd (''/content/'' @ (''/results/'' @ stem @ ''_'') @ ''image.bmp'')
                                   (''/content/'' @ (''/results/'' @ stem @ ''_'') @ ''image.svg'')),
              Imwrite (''/content/'' @ (''/results/'' @ stem @ ''_'') @ ''image_bw.bmp'')
                (Plane (map (map (gray_of L)) b2)),
              Popen (autotrace_cmd (''/content/'' @ (''/results/'' @ stem @ ''_'') @ ''image_bw.bmp'')
                                   (''/content/'' @ (''/results/'' @ stem @ ''_'') @ ''image_bw.svg'')),
              Imwrite (''/content/'' @ (''/results/'' @ stem @ ''_'') @ ''blank_outline.bmp'') (Colour b4),
              Popen (autotrace_cmd (''/content/'' @ (''/results/'' @ stem @ ''_'') @ ''blank_outline.bmp'')
                                   (''/content/'' @ (''/results/'' @ stem @ ''_'') @ ''blank_outline.svg'')),
              Imwrite (''/content/'' @ (''/results/'' @ stem @ ''_'') @ ''solid_outline.bmp'') (Colour b5),
              Popen (autotrace_cmd (''/content/'' @ (''/results/'' @ stem @ ''_'') @ ''solid_outline.bmp'')
                                   (''/content/'' @ (''/results/'' @ stem @ ''_'') @ ''solid_outline.svg''))]
        \<and> (\<forall>b \<in> {b1, b2, b4, b5}. has_shape b (2 * nat (sint (box_h bb))) (2 * nat (sint (box_w bb)))
               \<and> (\<exists>src. has_shape src (nat (sint (box_h bb))) (nat (sint (box_w bb)))
                      \<and> double_image L src = Inr b))
        \<and> labs s' = labs s @
             [remap_labels (load_labels raw),
              threshold_positive (remap_labels (load_labels raw))] @
             map (\<lambda>i. snd (findContours L
                    (mask_eq i (mask_ne i (remap_labels (load_labels raw)))))) [1..23] @
             [snd (findContours L
                    (mask_eq 1 (mask_ne 1 (threshold_positive (remap_labels (load_labels raw))))))]
        \<and> entry_idx s' = entry_idx s + 1"
proof -
  define x where "x = sint (box_x bb)"
  define y where "y = sint (box_y bb)"
  define w where "w = sint (box_w bb)"
  define h where "h = sint (box_h bb)"
  from v have dirs: "''/content/results'' \<in> set (dirs s) \<or> ''/content'' \<in> set (dirs s)"
      and dims: "0 < H" "0 < W" "H < 2 ^ 31" "W < 2 ^ 31"
      and pos: "0 \<le> x" "0 \<le> y" "0 < w" "0 < h"
      and fit: "x + w \<le> int W" "y + h \<le> int H"
      and small: "h < 2 ^ 30" "w < 2 ^ 30"
      and shape: "has_shape raw (nat h) (nat w)"
    by (simp_all add: valid_run_def Let_def x_def y_def w_def h_def)
  let ?C = "background_correct L (colorize L (remap_labels (load_labels raw)))"
  have "has_shape ?C (nat h) (nat w)" using shape by simp
  then have shC: "length ?C = nat h" "\<forall>row \<in> set ?C. length row = nat w"
    by (simp_all add: has_shape_def)
  from composite_inside [of bb W H ?C] pos fit dims shC
  obtain canvas where c: "composite (H, W) bb ?C = Inr canvas"
    and cs: "length canvas = H" "\<forall>row \<in> set canvas. length row = W"
    unfolding x_def y_def w_def h_def by blast
  from ensure_results_dir_ok [OF dirs] obtain s1 where d: "ensure_results_dir s = Inr s1" ..
  have b: "0 < nat h" "0 < nat w" "nat h < 2 ^ 30" "nat w < 2 ^ 30"
    using pos small by simp_all
  from execute_composite_ok [OF d dims(1,2) c shape b, of stem]
  show ?thesis using c cs unfolding has_shape_def w_def h_def by blast
qed

lemma valid_run_succeeds:
  assumes "valid_run s (H, W) bb raw"
  shows "fst (execute_on_outputs L (H, W) stem raw bb s) = None"
proof -
  from execute_valid_run [OF assms, of L stem]
  obtain s' where "execute_on_outputs L (H, W) stem raw bb s = (None, s')"
    by (elim exE conjE)
  then show ?thesis by simp
qed

lemma valid_run_mytest:
  assumes "valid_run s (H, W) bb raw"
  shows "\<exists>canvas. composite (H, W) bb
            (background_correct L (colorize L (remap_labels (load_labels raw)))) = Inr canvas
        \<and> log (snd (execute_on_outputs L (H, W) stem raw bb s)) ! (length (log s) + 3)
             = Imwrite ''/content/results/mytest.jpg'' (Colour canvas)"
proof -
  from execute_valid_run [OF assms, of L stem] obtain canvas s' evs where
    c: "composite (H, W) bb
            (background_correct L (colorize L (remap_labels (load_labels raw)))) = Inr canvas"
    and r: "execute_on_outputs L (H, W) stem raw bb s = (None, s')"
    and l: "log s' = log s @
             NpSave ''/content/output_orig.npy'' (Plane (remap_labels (load_labels raw))) #
              NpSave ''/content/output_outline.npy''
                (Plane (threshold_positive (remap_labels (load_labels raw)))) #
              NpSave (''/content/'' @ (''/results/'' @ stem @ ''_'') @ ''output.npy'')
                (Colour (background_correct L (colorize L (remap_labels (load_labels raw))))) #
              Imwrite ''/content/results/mytest.jpg'' (Colour canvas) # evs"
    by (elim exE conjE)
  have "log s' ! (length (log s) + 3) = Imwrite ''/content/results/mytest.jpg'' (Colour canvas)"
    unfolding l by (simp add: nth_append)
  with c r show ?thesis by simp
qed

lemma valid_run_silhouette_copy:
  assumes "valid_run s (H, W) bb raw"
  shows "last (labs (snd (execute_on_outputs L (H, W) stem raw bb s)))
           = snd (findContours L
                   (mask_eq 1 (mask_ne 1 (threshold_positive (remap_labels (load_labels raw))))))"
proof -
  from execute_valid_run [OF assms, of L stem] obtain s' where
    r: "execute_on_outputs L (H, W) stem raw bb s = (None, s')"
    and l: "labs s' = labs s @
             [remap_labels (load_labels raw),
              threshold_positive (remap_labels (load_labels raw))] @
             map (\<lambda>i. snd (findContours L
                    (mask_eq i (mask_ne i (remap_labels (load_labels raw)))))) [1..23] @
             [snd (findContours L
                    (mask_eq 1 (mask_ne 1 (threshold_positive (remap_labels (load_labels raw))))))]"
    by (elim exE conjE)
  have "last (labs s') = snd (findContours L
                   (mask_eq 1 (mask_ne 1 (threshold_positive (remap_labels (load_labels raw))))))"
    unfolding l by (simp only: last_appendR last_snoc append_assoc [symmetric] not_Cons_self2 simp_thms)
  with r show ?thesis by simp
qed

lemma valid_run_first_dump:
  assumes "valid_run s (H, W) bb raw"
  shows "log (snd (execute_on_outputs L (H, W) stem raw bb s)) ! length (log s)
             = NpSave ''/content/output_orig.npy'' (Plane (remap_labels (load_labels raw)))"
proof -
  from execute_valid_run [OF assms, of L stem] obtain s' evs where
    r: "execute_on_outputs L (H, W) stem raw bb s = (None, s')"
    and l: "log s' = log s @
             NpSave ''/content/output_orig.npy'' (Plane (remap_labels (load_labels raw))) # evs"
    by (elim exE conjE)
  have "log s' ! length (log s)
          = NpSave ''/content/output_orig.npy'' (Plane (remap_labels (load_labels raw)))"
    unfolding l by (simp add: nth_append)
  with r show ?thesis by simp
qed

lemma load_remap_lookup:
  "remap_labels (load_labels raw) = map (map (\<lambda>v. symmetry_table (word_of_int v))) raw"
  by (simp add: remap_labels_lookup load_labels_def comp_def)

subsection \<open>Labels outside 0..24\<close>

text \<open>
  C4 (as stated: a label outside 0..24 makes the remapping step fail with an
  invalid-input error). The tensor \<open>[[25, 258]]\<close> is taken without error: 25 passes
  through unchanged, 258 is cast to 2 and folded to 1, and the run of the pipeline with
  a bounding box inside the image ends without an exception.
\<close>

theorem out_of_range_label_error_counterexample:
  "\<not> raw_in_range [[25, 258]]
   \<and> remap_labels (load_labels [[25, 258]]) = [[25, 1]]
   \<and> fst (execute_on_outputs coarse_cv2 (3, 4) ''img'' [[25, 258]]
             \<lparr>box_x = 1, box_y = 1, box_w = 2, box_h = 1\<rparr> fresh_state) = None"
proof -
  have "valid_run fresh_state (3, 4) \<lparr>box_x = 1, box_y = 1, box_w = 2, box_h = 1\<rparr> [[25, 258]]"
    by (simp add: valid_run_def fresh_state_def has_shape_def)
  then have "fst (execute_on_outputs coarse_cv2 (3, 4) ''img'' [[25, 258]]
             \<lparr>box_x = 1, box_y = 1, box_w = 2, box_h = 1\<rparr> fresh_state) = None"
    by (rule valid_run_succeeds)
  moreover have "remap_labels (load_labels [[25, 258]]) = [[25, 1]]"
    by (simp add: remap_labels_def masked_assign_def load_labels_def)
  moreover have "\<not> raw_in_range [[25, 258]]"
    by (simp add: raw_in_range_def)
  ultimately show ?thesis by simp
qed

text \<open>
  C4 (amended). For a label tensor with a value outside 0..24 the remapping step raises
  nothing: every value is cast to 8 bits and mapped through the table, so a value whose
  cast is none of the ten folded labels passes through unchanged; on the inputs of a
  run that goes through, the pipeline ends without an exception and its first dump,
  \<^verbatim>\<open>output_orig.npy\<close>, holds the array so obtained.
\<close>

theorem out_of_range_labels_pass_through:
  assumes "\<not> raw_in_range raw" and "valid_run s (H, W) bb raw"
  shows "remap_labels (load_labels raw) = map (map (\<lambda>v. symmetry_table (word_of_int v))) raw
       \<and> fst (execute_on_outputs L (H, W) stem raw bb s) = None
       \<and> log (snd (execute_on_outputs L (H, W) stem raw bb s)) ! length (log s)
           = NpSave ''/content/output_orig.npy''
               (Plane (map (map (\<lambda>v. symmetry_table (word_of_int v))) raw))"
  using valid_run_succeeds [OF assms(2), of L stem] valid_run_first_dump [OF assms(2), of L stem]
  by (simp add: load_remap_lookup)

theorem out_of_range_labels_pass_through_witness:
  "\<not> raw_in_range [[25, 258]]
   \<and> valid_run fresh_state (3, 4) \<lparr>box_x = 1, box_y = 1, box_w = 2, box_h = 1\<rparr> [[25, 258]]
   \<and> remap_labels (load_labels [[25, 258]]) = [[25, 1]]
   \<and> fst (execute_on_outputs coarse_cv2 (3, 4) ''img'' [[25, 258]]
             \<lparr>box_x = 1, box_y = 1, box_w = 2, box_h = 1\<rparr> fresh_state) = None
   \<and> log (snd (execute_on_outputs coarse_cv2 (3, 4) ''img'' [[25, 258]]
             \<lparr>box_x = 1, box_y = 1, box_w = 2, box_h = 1\<rparr> fresh_state)) ! 0
       = NpSave ''/content/output_orig.npy'' (Plane [[25, 1]])"
proof -
  have h1: "\<not> raw_in_range [[25, 258]]"
    by (simp add: raw_in_range_def)
  have h2: "valid_run fresh_state (3, 4) \<lparr>box_x = 1, box_y = 1, box_w = 2, box_h = 1\<rparr> [[25, 258]]"
    by (simp add: valid_run_def fresh_state_def has_shape_def)
  have t: "map (map (\<lambda>v. symmetry_table (word_of_int v))) [[25, 258]] = [[25, 1]]"
    by (simp add: symmetry_table_def symmetry_pairs_def)
  have l: "length (log fresh_state) = 0" by (simp add: fresh_state_def)
  from out_of_range_labels_pass_through [OF h1 h2, of coarse_cv2 "''img''"]
  show ?thesis using h1 h2 unfolding t l by simp
qed

subsection \<open>A bounding box that exceeds the image\<close>

lemma slice_len_le:
  "0 \<le> start \<Longrightarrow> snd (slice_bounds start stop n) \<le> n - nat start"
  by (auto simp: slice_bounds_def Let_def min_def max_def)

lemma slice_beyond:
  "int n \<le> start \<Longrightarrow> slice_bounds start stop n = (n, 0)"
  by (auto simp: slice_bounds_def Let_def min_def max_def)

lemma slice_clipped_shorter:
  assumes "0 \<le> start" "0 < len" "int n < start + len"
  shows "snd (slice_bounds start stop n) < nat len"
proof -
  have "snd (slice_bounds start stop n) \<le> n - nat start"
    using assms(1) by (rule slice_len_le)
  also have "n - nat start < nat len" using assms by linarith
  finally show ?thesis .
qed

lemma composite_exceeds:
  fixes bb :: bbox
  assumes pos: "0 \<le> sint (box_x bb)" "0 \<le> sint (box_y bb)"
               "0 < sint (box_w bb)" "0 < sint (box_h bb)"
      and exceeds: "(int H < sint (box_y bb) + sint (box_h bb) \<and> 1 < sint (box_h bb))
                  \<or> (int W < sint (box_x bb) + sint (box_w bb) \<and> 1 < sint (box_w bb))"
      and shape: "has_shape I (nat (sint (box_h bb))) (nat (sint (box_w bb)))"
  shows "composite (H, W) bb I = Inl ShapeMismatch"
proof -
  let ?x = "sint (box_x bb)" and ?y = "sint (box_y bb)"
  let ?w = "sint (box_w bb)" and ?h = "sint (box_h bb)"
  have l: "length I = nat ?h" using shape by (simp add: has_shape_def)
  have wd: "width I = nat ?w"
    using shape pos by (intro has_shape_width [of I "nat ?h"]) simp_all
  from exceeds show ?thesis
  proof
    assume a: "int H < ?y + ?h \<and> 1 < ?h"
    then have "snd (slice_bounds ?y (sint (box_y bb + box_h bb)) H) < nat ?h"
      using pos by (intro slice_clipped_shorter) simp_all
    with a have "nat ?h \<noteq> snd (slice_bounds ?y (sint (box_y bb + box_h bb)) H)" "nat ?h \<noteq> 1"
      by auto
    then show ?thesis
      unfolding composite_def assign_region_def Let_def
      by (simp add: split_beta l)
  next
    assume a: "int W < ?x + ?w \<and> 1 < ?w"
    then have "snd (slice_bounds ?x (sint (box_x bb + box_w bb)) W) < nat ?w"
      using pos by (intro slice_clipped_shorter) simp_all
    with a have "nat ?w \<noteq> snd (slice_bounds ?x (sint (box_x bb + box_w bb)) W)" "nat ?w \<noteq> 1"
      by auto
    then show ?thesis
      unfolding composite_def assign_region_def Let_def
      by (simp add: split_beta wd)
  qed
qed

lemma white_canvas:
  "map (\<lambda>r. map (\<lambda>c. replicate H (replicate W p) ! r ! c) [0..<W]) [0..<H]
     = replicate H (replicate W p)"
  by (simp add: list_eq_iff_nth_eq)

lemma composite_unit_excess:
  fixes bb :: bbox
  assumes dims: "H < 2 ^ 31" "W < 2 ^ 31"
      and pos: "0 \<le> sint (box_x bb)" "0 \<le> sint (box_y bb)"
               "0 < sint (box_w bb)" "0 < sint (box_h bb)"
      and exceeds: "int H < sint (box_y bb) + sint (box_h bb)
                  \<or> int W < sint (box_x bb) + sint (box_w bb)"
      and unit: "int H < sint (box_y bb) + sint (box_h bb) \<longrightarrow> sint (box_h bb) = 1"
                "int W < sint (box_x bb) + sint (box_w bb) \<longrightarrow> sint (box_w bb) = 1"
      and shape: "has_shape I (nat (sint (box_h bb))) (nat (sint (box_w bb)))"
  shows "composite (H, W) bb I = Inr (replicate H (replicate W white))"
proof -
  let ?x = "sint (box_x bb)" and ?y = "sint (box_y bb)"
  let ?w = "sint (box_w bb)" and ?h = "sint (box_h bb)"
  obtain r0 rl where rs: "slice_bounds ?y (sint (box_y bb + box_h bb)) H = (r0, rl)"
    by (cases "slice_bounds ?y (sint (box_y bb + box_h bb)) H") auto
  obtain c0 cl where cs: "slice_bounds ?x (sint (box_x bb + box_w bb)) W = (c0, cl)"
    by (cases "slice_bounds ?x (sint (box_x bb + box_w bb)) W") auto
  have l: "length I = nat ?h" using shape by (simp add: has_shape_def)
  have wd: "width I = nat ?w"
    using shape pos by (intro has_shape_width [of I "nat ?h"]) simp_all
  have rows_ok: "nat ?h = rl \<or> nat ?h = 1"
  proof (cases "int H < ?y + ?h")
    case True
    with unit show ?thesis by simp
  next
    case False
    then have fit: "?y + ?h \<le> int H" by simp
    then have "sint (box_y bb + box_h bb) = ?y + ?h"
      using pos dims by (intro sint32_add) simp_all
    with rs fit pos show ?thesis by (simp add: slice_bounds_inside)
  qed
  have cols_ok: "nat ?w = cl \<or> nat ?w = 1"
  proof (cases "int W < ?x + ?w")
    case True
    with unit show ?thesis by simp
  next
    case False
    then have fit: "?x + ?w \<le> int W" by simp
    then have "sint (box_x bb + box_w bb) = ?x + ?w"
      using pos dims by (intro sint32_add) simp_all
    with cs fit pos show ?thesis by (simp add: slice_bounds_inside)
  qed
  have empty: "rl = 0 \<or> cl = 0"
  proof -
    from exceeds show ?thesis
    proof
      assume a: "int H < ?y + ?h"
      with unit have "int H \<le> ?y" by simp
      then have "slice_bounds ?y (sint (box_y bb + box_h bb)) H = (H, 0)" by (rule slice_beyond)
      with rs show ?thesis by simp
    next
      assume a: "int W < ?x + ?w"
      with unit have "int W \<le> ?x" by simp
      then have "slice_bounds ?x (sint (box_x bb + box_w bb)) W = (W, 0)" by (rule slice_beyond)
      with cs show ?thesis by simp
    qed
  qed
  have outside: "\<not> (r0 \<le> r \<and> r < r0 + rl \<and> c0 \<le> c \<and> c < c0 + cl)" for r c
    using empty by auto
  show ?thesis
    unfolding composite_def assign_region_def Let_def split_conv rs cs l wd
    using rows_ok cols_ok by (simp add: outside white_canvas)
qed


lemma execute_excess_raises:
  fixes bb :: bbox
  assumes dirs: "''/content/results'' \<in> set (dirs s) \<or> ''/content'' \<in> set (dirs s)"
      and dims: "0 < H" "0 < W"
      and pos: "0 \<le> sint (box_x bb)" "0 \<le> sint (box_y bb)"
               "0 < sint (box_w bb)" "0 < sint (box_h bb)"
      and shape: "has_shape raw (nat (sint (box_h bb))) (nat (sint (box_w bb)))"
      and exceeds: "(int H < sint (box_y bb) + sint (box_h bb) \<and> 1 < sint (box_h bb))
                  \<or> (int W < sint (box_x bb) + sint (box_w bb) \<and> 1 < sint (box_w bb))"
  shows "\<exists>s'. execute_on_outputs L (H, W) stem raw bb s = (Some ShapeMismatch, s')
          \<and> log s' = log s @
               [NpSave ''/content/output_orig.npy'' (Plane (remap_labels (load_labels raw))),
                NpSave ''/content/output_outline.npy''
                  (Plane (threshold_positive (remap_labels (load_labels raw))))]
          \<and> ''/content/results'' \<in> set (dirs s')
          \<and> imgs s' = imgs s \<and> entry_idx s' = entry_idx s"
proof -
  let ?C = "background_correct L (colorize L (remap_labels (load_labels raw)))"
  have shC: "has_shape ?C (nat (sint (box_h bb))) (nat (sint (box_w bb)))"
    using shape by simp
  have c: "composite (H, W) bb ?C = Inl ShapeMismatch"
    using pos exceeds shC by (rule composite_exceeds)
  from ensure_results_dir_ok [OF dirs] obtain s1 where d: "ensure_results_dir s = Inr s1" ..
  note p = ensure_results_dir_props [OF d]
  show ?thesis
    unfolding execute_composite_fails [OF d dims c]
    by (simp add: p)
qed

lemma execute_unit_excess:
  fixes bb :: bbox
  assumes dirs: "''/content/results'' \<in> set (dirs s) \<or> ''/content'' \<in> set (dirs s)"
      and dims: "0 < H" "0 < W"
      and pos: "0 \<le> sint (box_x bb)" "0 \<le> sint (box_y bb)"
               "0 < sint (box_w bb)" "0 < sint (box_h bb)"
      and shape: "has_shape raw (nat (sint (box_h bb))) (nat (sint (box_w bb)))"
      and big: "H < 2 ^ 31" "W < 2 ^ 31"
      and small: "sint (box_h bb) < 2 ^ 30" "sint (box_w bb) < 2 ^ 30"
      and exceeds: "int H < sint (box_y bb) + sint (box_h bb)
                  \<or> int W < sint (box_x bb) + sint (box_w bb)"
      and unit: "int H < sint (box_y bb) + sint (box_h bb) \<longrightarrow> sint (box_h bb) = 1"
                "int W < sint (box_x bb) + sint (box_w bb) \<longrightarrow> sint (box_w bb) = 1"
  shows "\<exists>b1 b2 b4 b5 s'. execute_on_outputs L (H, W) stem raw bb s = (None, s')
          \<and> log s' = log s @
             [NpSave ''/content/output_orig.npy'' (Plane (remap_labels (load_labels raw))),
              NpSave ''/content/output_outline.npy''
                (Plane (threshold_positive (remap_labels (load_labels raw)))),
              NpSave (''/content/'' @ (''/results/'' @ stem @ ''_'') @ ''output.npy'')
                (Colour (background_correct L (colorize L (remap_labels (load_labels raw))))),
              Imwrite ''/content/results/mytest.jpg'' (Colour (replicate H (replicate W (255, 255, 255)))),
              Imwrite (''/content/'' @ (''/results/'' @ stem @ ''_'') @ ''blank.bmp'') (Colour b1),
              Popen (autotrace_cmd (''/content/'' @ (''/results/'' @ stem @ ''_'') @ ''blank.bmp'')
                                   (''/content/'' @ (''/results/'' @ stem @ ''_'') @ ''blank.svg'')),
              Imwrite (''/content/'' @ (''/results/'' @ stem @ ''_'') @ ''image.bmp'') (Colour b2),
              Popen (autotrace_cmd (''/content/'' @ (''/results/'' @ stem @ ''_'') @ ''image.bmp'')
                                   (''/content/'' @ (''/results/'' @ stem @ ''_'') @ ''image.svg'')),
              Imwrite (''/content/'' @ (''/results/'' @ stem @ ''_'') @ ''image_bw.bmp'')
                (Plane (map (map (gray_of L)) b2)),
              Popen (autotrace_cmd (''/content/'' @ (''/results/'' @ stem @ ''_'') @ ''image_bw.bmp'')
                                   (''/content/'' @ (''/results/'' @ stem @ ''_'') @ ''image_bw.svg'')),
              Imwrite (''/content/'' @ (''/results/'' @ stem @ ''_'') @ ''blank_outline.bmp'') (Colour b4),
              Popen (autotrace_cmd (''/content/'' @ (''/results/'' @ stem @ ''_'') @ ''blank_outline.bmp'')
                                   (''/content/'' @ (''/results/'' @ stem @ ''_'') @ ''blank_outline.svg'')),
              Imwrite (''/content/'' @ (''/results/'' @ stem @ ''_'') @ ''solid_outline.bmp'') (Colour b5),
              Popen (autotrace_cmd (''/content/'' @ (''/results/'' @ stem @ ''_'') @ ''solid_outline.bmp'')
                                   (''/content/'' @ (''/results/'' @ stem @ ''_'') @ ''solid_outline.svg''))]
          \<and> entry_idx s' = entry_idx s + 1"
proof -
  let ?C = "background_correct L (colorize L (remap_labels (load_labels raw)))"
  have shC: "has_shape ?C (nat (sint (box_h bb))) (nat (sint (box_w bb)))"
    using shape by simp
  have c: "composite (H, W) bb ?C = Inr (replicate H (replicate W (255, 255, 255)))"
    using composite_unit_excess [OF big pos exceeds unit shC] by (simp add: white_def)
  from ensure_results_dir_ok [OF dirs] obtain s1 where d: "ensure_results_dir s = Inr s1" ..
  have b: "0 < nat (sint (box_h bb))" "0 < nat (sint (box_w bb))"
    "nat (sint (box_h bb)) < 2 ^ 30" "nat (sint (box_w bb)) < 2 ^ 30"
    using pos small by simp_all
  from execute_composite_ok [OF d dims c shape b, of stem]
  obtain b1 b2 b4 b5 s' where
    f1: "execute_on_outputs L (H, W) stem raw bb s = (None, s')"
    and f2: "log s' = log s @
             [NpSave ''/content/output_orig.npy'' (Plane (remap_labels (load_labels raw))),
              NpSave ''/content/output_outline.npy''
                (Plane (threshold_positive (remap_labels (load_labels raw)))),
              NpSave (''/content/'' @ (''/results/'' @ stem @ ''_'') @ ''output.npy'')
                (Colour (background_correct L (colorize L (remap_labels (load_labels raw))))),
              Imwrite ''/content/results/mytest.jpg'' (Colour (replicate H (replicate W (255, 255, 255)))),
              Imwrite (''/content/'' @ (''/results/'' @ stem @ ''_'') @ ''blank.bmp'') (Colour b1),
              Popen (autotrace_cmd (''/content/'' @ (''/results/'' @ stem @ ''_'') @ ''blank.bmp'')
                                   (''/content/'' @ (''/results/'' @ stem @ ''_'') @ ''blank.svg'')),
              Imwrite (''/content/'' @ (''/results/'' @ stem @ ''_'') @ ''image.bmp'') (Colour b2),
              Popen (autotrace_cmd (''/content/'' @ (''/results/'' @ stem @ ''_'') @ ''image.bmp'')
                                   (''/content/'' @ (''/results/'' @ stem @ ''_'') @ ''image.svg'')),
              Imwrite (''/content/'' @ (''/results/'' @ stem @ ''_'') @ ''image_bw.bmp'')
                (Plane (map (map (gray_of L)) b2)),
              Popen (autotrace_cmd (''/content/'' @ (''/results/'' @ stem @ ''_'') @ ''image_bw.bmp'')
                                   (''/content/'' @ (''/results/'' @ stem @ ''_'') @ ''image_bw.svg'')),
              Imwrite (''/content/'' @ (''/results/'' @ stem @ ''_'') @ ''blank_outline.bmp'') (Colour b4),
              Popen (autotrace_cmd (''/content/'' @ (''/results/'' @ stem @ ''_'') @ ''blank_outline.bmp'')
                                   (''/content/'' @ (''/results/'' @ stem @ ''_'') @ ''blank_outline.svg'')),
              Imwrite (''/content/'' @ (''/results/'' @ stem @ ''_'') @ ''solid_outline.bmp'') (Colour b5),
              Popen (autotrace_cmd (''/content/'' @ (''/results/'' @ stem @ ''_'') @ ''solid_outline.bmp'')
                                   (''/content/'' @ (''/results/'' @ stem @ ''_'') @ ''solid_outline.svg''))]"
    and f3: "entry_idx s' = entry_idx s + 1"
    by (elim exE conjE)
  show ?thesis
    apply (rule exI [of _ b1], rule exI [of _ b2], rule exI [of _ b4])
    apply (rule exI [of _ b5], rule exI [of _ s'])
    apply (intro conjI)
      apply (rule f1)
     apply (rule f2)
    apply (rule f3)
    done
qed

lemma unit_excess_mytest:
  fixes bb :: bbox
  assumes dirs: "''/content/results'' \<in> set (dirs s) \<or> ''/content'' \<in> set (dirs s)"
      and dims: "0 < H" "0 < W"
      and pos: "0 \<le> sint (box_x bb)" "0 \<le> sint (box_y bb)"
               "0 < sint (box_w bb)" "0 < sint (box_h bb)"
      and shape: "has_shape raw (nat (sint (box_h bb))) (nat (sint (box_w bb)))"
      and big: "H < 2 ^ 31" "W < 2 ^ 31"
      and small: "sint (box_h bb) < 2 ^ 30" "sint (box_w bb) < 2 ^ 30"
      and exceeds: "int H < sint (box_y bb) + sint (box_h bb)
                  \<or> int W < sint (box_x bb) + sint (box_w bb)"
      and unit: "int H < sint (box_y bb) + sint (box_h bb) \<longrightarrow> sint (box_h bb) = 1"
                "int W < sint (box_x bb) + sint (box_w bb) \<longrightarrow> sint (box_w bb) = 1"
  shows "fst (execute_on_outputs L (H, W) stem raw bb s) = None
       \<and> log (snd (execute_on_outputs L (H, W) stem raw bb s)) ! (length (log s) + 3)
           = Imwrite ''/content/results/mytest.jpg''
               (Colour (replicate H (replicate W (255, 255, 255))))"
proof -
  from execute_unit_excess [OF dirs dims pos shape big small exceeds unit, of L stem]
  obtain s' evs where
    r: "execute_on_outputs L (H, W) stem raw bb s = (None, s')"
    and l: "log s' = log s @
             NpSave ''/content/output_orig.npy'' (Plane (remap_labels (load_labels raw))) #
              NpSave ''/content/output_outline.npy''
                (Plane (threshold_positive (remap_labels (load_labels raw)))) #
              NpSave (''/content/'' @ (''/results/'' @ stem @ ''_'') @ ''output.npy'')
                (Colour (background_correct L (colorize L (remap_labels (load_labels raw))))) #
              Imwrite ''/content/results/mytest.jpg''
                (Colour (replicate H (replicate W (255, 255, 255)))) # evs"
    by (elim exE conjE)
  have "log s' ! (length (log s) + 3) = Imwrite ''/content/results/mytest.jpg''
               (Colour (replicate H (replicate W (255, 255, 255))))"
    unfolding l by (simp add: nth_append)
  with r show ?thesis by simp
qed

text \<open>
  C5 (as stated: a box exceeding the image makes the pipeline raise before any raster or
  numeric dump is written, the state unchanged). Two runs on a 3 by 4 image. The box
  (3, 1, 2, 2) exceeds the width: the run raises the shape mismatch of the canvas
  assignment, and by then the results directory is made and both label dumps are
  written. The box (4, 1, 1, 2) exceeds the width too, with a width of one pixel: the
  run raises nothing and writes an entirely white canvas to \<^verbatim>\<open>mytest.jpg\<close>.
\<close>

theorem bbox_exceeding_state_unchanged_counterexample:
  "int 4 < sint (3 :: 32 word) + sint (2 :: 32 word)
   \<and> execute_on_outputs coarse_cv2 (3, 4) ''img'' [[0, 1], [2, 7]]
        \<lparr>box_x = 3, box_y = 1, box_w = 2, box_h = 2\<rparr> fresh_state
     = (Some ShapeMismatch,
        \<lparr>labs = [[[0, 1], [1, 9]], [[0, 1], [1, 1]]], imgs = [],
         dirs = [''/content'', ''/content/results''],
         log = [NpSave ''/content/output_orig.npy'' (Plane [[0, 1], [1, 9]]),
                NpSave ''/content/output_outline.npy'' (Plane [[0, 1], [1, 1]])],
         entry_idx = 0\<rparr>)
   \<and> int 4 < sint (4 :: 32 word) + sint (1 :: 32 word)
   \<and> fst (execute_on_outputs coarse_cv2 (3, 4) ''img'' [[0], [9]]
        \<lparr>box_x = 4, box_y = 1, box_w = 1, box_h = 2\<rparr> fresh_state) = None
   \<and> log (snd (execute_on_outputs coarse_cv2 (3, 4) ''img'' [[0], [9]]
        \<lparr>box_x = 4, box_y = 1, box_w = 1, box_h = 2\<rparr> fresh_state)) ! 3
     = Imwrite ''/content/results/mytest.jpg''
         (Colour [[(255, 255, 255), (255, 255, 255), (255, 255, 255), (255, 255, 255)],
                  [(255, 255, 255), (255, 255, 255), (255, 255, 255), (255, 255, 255)],
                  [(255, 255, 255), (255, 255, 255), (255, 255, 255), (255, 255, 255)]])"
proof -
  have r: "remap_labels (load_labels [[0, 1], [2, 7]]) = [[0, 1], [1, 9]]"
    by (simp add: remap_labels_def masked_assign_def load_labels_def)
  have c: "composite (3, 4) \<lparr>box_x = 3, box_y = 1, box_w = 2, box_h = 2\<rparr>
             (background_correct coarse_cv2 (colorize coarse_cv2 [[0, 1], [1, 9]]))
           = Inl ShapeMismatch"
  proof (rule composite_exceeds)
    show "has_shape (background_correct coarse_cv2 (colorize coarse_cv2 [[0, 1], [1, 9]]))
            (nat (sint (box_h \<lparr>box_x = 3, box_y = 1, box_w = 2, box_h = 2 :: 32 word\<rparr>)))
            (nat (sint (box_w \<lparr>box_x = 3 :: 32 word, box_y = 1, box_w = 2, box_h = 2\<rparr>)))"
      by (simp only: colorized_shape) (simp add: has_shape_def)
  qed simp_all
  have "execute_on_outputs coarse_cv2 (3, 4) ''img'' [[0, 1], [2, 7]]
        \<lparr>box_x = 3, box_y = 1, box_w = 2, box_h = 2\<rparr> fresh_state
     = (Some ShapeMismatch,
        (fresh_state\<lparr>dirs := [''/content'', ''/content/results'']\<rparr>)
          \<lparr>labs := labs (fresh_state\<lparr>dirs := [''/content'', ''/content/results'']\<rparr>) @
             [remap_labels (load_labels [[0, 1], [2, 7]]),
              threshold_positive (remap_labels (load_labels [[0, 1], [2, 7]]))],
           log := log (fresh_state\<lparr>dirs := [''/content'', ''/content/results'']\<rparr>) @
                [NpSave ''/content/output_orig.npy'' (Plane (remap_labels (load_labels [[0, 1], [2, 7]]))),
                 NpSave ''/content/output_outline.npy''
                   (Plane (threshold_positive (remap_labels (load_labels [[0, 1], [2, 7]]))))]\<rparr>)"
    by (rule execute_composite_fails [OF fresh_dir]) (simp_all add: r c)
  then have A: "execute_on_outputs coarse_cv2 (3, 4) ''img'' [[0, 1], [2, 7]]
        \<lparr>box_x = 3, box_y = 1, box_w = 2, box_h = 2\<rparr> fresh_state
     = (Some ShapeMismatch,
        \<lparr>labs = [[[0, 1], [1, 9]], [[0, 1], [1, 1]]], imgs = [],
         dirs = [''/content'', ''/content/results''],
         log = [NpSave ''/content/output_orig.npy'' (Plane [[0, 1], [1, 9]]),
                NpSave ''/content/output_outline.npy'' (Plane [[0, 1], [1, 1]])],
         entry_idx = 0\<rparr>)"
    by (simp add: r threshold_positive_def fresh_state_def)
  have w: "replicate 3 (replicate 4 (255 :: 8 word, 255 :: 8 word, 255 :: 8 word))
     = [[(255, 255, 255), (255, 255, 255), (255, 255, 255), (255, 255, 255)],
        [(255, 255, 255), (255, 255, 255), (255, 255, 255), (255, 255, 255)],
        [(255, 255, 255), (255, 255, 255), (255, 255, 255), (255, 255, 255)]]"
    by (simp add: eval_nat_numeral)
  have l: "length (log fresh_state) + 3 = 3" by (simp add: fresh_state_def)
  have B: "fst (execute_on_outputs coarse_cv2 (3, 4) ''img'' [[0], [9]]
        \<lparr>box_x = 4, box_y = 1, box_w = 1, box_h = 2\<rparr> fresh_state) = None
   \<and> log (snd (execute_on_outputs coarse_cv2 (3, 4) ''img'' [[0], [9]]
        \<lparr>box_x = 4, box_y = 1, box_w = 1, box_h = 2\<rparr> fresh_state)) ! 3
     = Imwrite ''/content/results/mytest.jpg''
         (Colour (replicate 3 (replicate 4 (255, 255, 255))))"
    using unit_excess_mytest [where s = fresh_state and H = 3 and W = 4 and raw = "[[0], [9]]"
        and bb = "\<lparr>box_x = 4, box_y = 1, box_w = 1, box_h = 2\<rparr>" and L = coarse_cv2
        and stem = "''img''"]
    unfolding l by (simp add: fresh_state_def has_shape_def)
  from A B show ?thesis unfolding w by simp
qed

text \<open>
  C5 (amended). Take a bounding box with non-negative origin and positive extents, a
  label array of the shape of the box, a non-empty source image, and a file system in
  which \<^verbatim>\<open>/content/results\<close> or its parent \<^verbatim>\<open>/content\<close> exists. If the box exceeds
  the image in a direction in which it is more than one pixel long (\<open>y + h\<close> above the
  height with \<open>h > 1\<close>, or \<open>x + w\<close> above the width with \<open>w > 1\<close>), the pipeline raises
  the shape mismatch of the canvas assignment before any raster artifact and before the
  dump of the colorized array is written; by then the results directory exists and the
  two label dumps \<^verbatim>\<open>output_orig.npy\<close> and \<^verbatim>\<open>output_outline.npy\<close> are written. If the
  box exceeds the image only in directions in which it is one pixel long (image extents
  below \<open>2 ^ 31\<close>, box extents below \<open>2 ^ 30\<close>), the pipeline raises nothing: the canvas
  written to \<^verbatim>\<open>mytest.jpg\<close> is entirely white, and the run goes on to write and
  vectorize the five bitmaps and ends normally.
\<close>

theorem bbox_exceeding_raises_late_or_never:
  fixes bb :: bbox
  defines "x \<equiv> sint (box_x bb)" and "y \<equiv> sint (box_y bb)"
      and "w \<equiv> sint (box_w bb)" and "h \<equiv> sint (box_h bb)"
  assumes dirs: "''/content/results'' \<in> set (dirs s) \<or> ''/content'' \<in> set (dirs s)"
      and dims: "0 < H" "0 < W"
      and pos: "0 \<le> x" "0 \<le> y" "0 < w" "0 < h"
      and shape: "has_shape raw (nat h) (nat w)"
  shows "((int H < y + h \<and> 1 < h) \<or> (int W < x + w \<and> 1 < w) \<longrightarrow>
           (\<exists>s'. execute_on_outputs L (H, W) stem raw bb s = (Some ShapeMismatch, s')
            \<and> log s' = log s @
                 [NpSave ''/content/output_orig.npy'' (Plane (remap_labels (load_labels raw))),
                  NpSave ''/content/output_outline.npy''
                    (Plane (threshold_positive (remap_labels (load_labels raw))))]
            \<and> ''/content/results'' \<in> set (dirs s')
            \<and> imgs s' = imgs s \<and> entry_idx s' = entry_idx s))
       \<and> ((int H < y + h \<or> int W < x + w)
            \<and> (int H < y + h \<longrightarrow> h = 1) \<and> (int W < x + w \<longrightarrow> w = 1)
            \<and> H < 2 ^ 31 \<and> W < 2 ^ 31 \<and> h < 2 ^ 30 \<and> w < 2 ^ 30 \<longrightarrow>
           (\<exists>b1 b2 b4 b5 s'. execute_on_outputs L (H, W) stem raw bb s = (None, s')
            \<and> log s' = log s @
               [NpSave ''/content/output_orig.npy'' (Plane (remap_labels (load_labels raw))),
                NpSave ''/content/output_outline.npy''
                  (Plane (threshold_positive (remap_labels (load_labels raw)))),
                NpSave (''/content/'' @ (''/results/'' @ stem @ ''_'') @ ''output.npy'')
                  (Colour (background_correct L (colorize L (remap_labels (load_labels raw))))),
                Imwrite ''/content/results/mytest.jpg'' (Colour (replicate H (replicate W (255, 255, 255)))),
                Imwrite (''/content/'' @ (''/results/'' @ stem @ ''_'') @ ''blank.bmp'') (Colour b1),
                Popen (autotrace_cmd (''/content/'' @ (''/results/'' @ stem @ ''_'') @ ''blank.bmp'')
                                     (''/content/'' @ (''/results/'' @ stem @ ''_'') @ ''blank.svg'')),
                Imwrite (''/content/'' @ (''/results/'' @ stem @ ''_'') @ ''image.bmp'') (Colour b2),
                Popen (autotrace_cmd (''/content/'' @ (''/results/'' @ stem @ ''_'') @ ''image.bmp'')
                                     (''/content/'' @ (''/results/'' @ stem @ ''_'') @ ''image.svg'')),
                Imwrite (''/content/'' @ (''/results/'' @ stem @ ''_'') @ ''image_bw.bmp'')
                  (Plane (map (map (gray_of L)) b2)),
                Popen (autotrace_cmd (''/content/'' @ (''/results/'' @ stem @ ''_'') @ ''image_bw.bmp'')
                                     (''/content/'' @ (''/results/'' @ stem @ ''_'') @ ''image_bw.svg'')),
                Imwrite (''/content/'' @ (''/results/'' @ stem @ ''_'') @ ''blank_outline.bmp'') (Colour b4),
                Popen (autotrace_cmd (''/content/'' @ (''/results/'' @ stem @ ''_'') @ ''blank_outline.bmp'')
                                     (''/content/'' @ (''/results/'' @ stem @ ''_'') @ ''blank_outline.svg'')),
                Imwrite (''/content/'' @ (''/results/'' @ stem @ ''_'') @ ''solid_outline.bmp'') (Colour b5),
                Popen (autotrace_cmd (''/content/'' @ (''/results/'' @ stem @ ''_'') @ ''solid_outline.bmp'')
                                     (''/content/'' @ (''/results/'' @ stem @ ''_'') @ ''solid_outline.svg''))]
            \<and> entry_idx s' = entry_idx s + 1))"
proof (intro conjI impI)
  assume "(int H < y + h \<and> 1 < h) \<or> (int W < x + w \<and> 1 < w)"
  with dirs dims pos shape show "\<exists>s'. execute_on_outputs L (H, W) stem raw bb s = (Some ShapeMismatch, s')
            \<and> log s' = log s @
                 [NpSave ''/content/output_orig.npy'' (Plane (remap_labels (load_labels raw))),
                  NpSave ''/content/output_outline.npy''
                    (Plane (threshold_positive (remap_labels (load_labels raw))))]
            \<and> ''/content/results'' \<in> set (dirs s')
            \<and> imgs s' = imgs s \<and> entry_idx s' = entry_idx s"
    unfolding x_def y_def w_def h_def
    by (intro execute_excess_raises)
next
  assume a: "(int H < y + h \<or> int W < x + w)
            \<and> (int H < y + h \<longrightarrow> h = 1) \<and> (int W < x + w \<longrightarrow> w = 1)
            \<and> H < 2 ^ 31 \<and> W < 2 ^ 31 \<and> h < 2 ^ 30 \<and> w < 2 ^ 30"
  with dirs dims pos shape show "\<exists>b1 b2 b4 b5 s'. execute_on_outputs L (H, W) stem raw bb s = (None, s')
            \<and> log s' = log s @
               [NpSave ''/content/output_orig.npy'' (Plane (remap_labels (load_labels raw))),
                NpSave ''/content/output_outline.npy''
                  (Plane (threshold_positive (remap_labels (load_labels raw)))),
                NpSave (''/content/'' @ (''/results/'' @ stem @ ''_'') @ ''output.npy'')
                  (Colour (background_correct L (colorize L (remap_labels (load_labels raw))))),
                Imwrite ''/content/results/mytest.jpg'' (Colour (replicate H (replicate W (255, 255, 255)))),
                Imwrite (''/content/'' @ (''/results/'' @ stem @ ''_'') @ ''blank.bmp'') (Colour b1),
                Popen (autotrace_cmd (''/content/'' @ (''/results/'' @ stem @ ''_'') @ ''blank.bmp'')
                                     (''/content/'' @ (''/results/'' @ stem @ ''_'') @ ''blank.svg'')),
                Imwrite (''/content/'' @ (''/results/'' @ stem @ ''_'') @ ''image.bmp'') (Colour b2),
                Popen (autotrace_cmd (''/content/'' @ (''/results/'' @ stem @ ''_'') @ ''image.bmp'')
                                     (''/content/'' @ (''/results/'' @ stem @ ''_'') @ ''image.svg'')),
                Imwrite (''/content/'' @ (''/results/'' @ stem @ ''_'') @ ''image_bw.bmp'')
                  (Plane (map (map (gray_of L)) b2)),
                Popen (autotrace_cmd (''/content/'' @ (''/results/'' @ stem @ ''_'') @ ''image_bw.bmp'')
                                     (''/content/'' @ (''/results/'' @ stem @ ''_'') @ ''image_bw.svg'')),
                Imwrite (''/content/'' @ (''/results/'' @ stem @ ''_'') @ ''blank_outline.bmp'') (Colour b4),
                Popen (autotrace_cmd (''/content/'' @ (''/results/'' @ stem @ ''_'') @ ''blank_outline.bmp'')
                                     (''/content/'' @ (''/results/'' @ stem @ ''_'') @ ''blank_outline.svg'')),
                Imwrite (''/content/'' @ (''/results/'' @ stem @ ''_'') @ ''solid_outline.bmp'') (Colour b5),
                Popen (autotrace_cmd (''/content/'' @ (''/results/'' @ stem @ ''_'') @ ''solid_outline.bmp'')
                                     (''/content/'' @ (''/results/'' @ stem @ ''_'') @ ''solid_outline.svg''))]
            \<and> entry_idx s' = entry_idx s + 1"
    unfolding x_def y_def w_def h_def
    by (intro execute_unit_excess) simp_all
qed

theorem bbox_exceeding_raises_late_or_never_witness:
  "(''/content/results'' \<in> set (dirs fresh_state) \<or> ''/content'' \<in> set (dirs fresh_state))
   \<and> has_shape [[0, 1], [2, 7 :: int]] (nat (sint (2 :: 32 word))) (nat (sint (2 :: 32 word)))
   \<and> int 4 < sint (3 :: 32 word) + sint (2 :: 32 word) \<and> 1 < sint (2 :: 32 word)
   \<and> (\<exists>s'. execute_on_outputs coarse_cv2 (3, 4) ''img'' [[0, 1], [2, 7]]
              \<lparr>box_x = 3, box_y = 1, box_w = 2, box_h = 2\<rparr> fresh_state = (Some ShapeMismatch, s')
          \<and> log s' = [NpSave ''/content/output_orig.npy'' (Plane [[0, 1], [1, 9]]),
                      NpSave ''/content/output_outline.npy'' (Plane [[0, 1], [1, 1]])]
          \<and> ''/content/results'' \<in> set (dirs s')
          \<and> imgs s' = [] \<and> entry_idx s' = 0)
   \<and> has_shape [[0], [9 :: int]] (nat (sint (2 :: 32 word))) (nat (sint (1 :: 32 word)))
   \<and> int 4 < sint (4 :: 32 word) + sint (1 :: 32 word) \<and> sint (1 :: 32 word) = 1
   \<and> (\<exists>s'. execute_on_outputs coarse_cv2 (3, 4) ''img'' [[0], [9]]
              \<lparr>box_x = 4, box_y = 1, box_w = 1, box_h = 2\<rparr> fresh_state = (None, s')
          \<and> log s' ! 3 = Imwrite ''/content/results/mytest.jpg''
                            (Colour (replicate 3 (replicate 4 (255, 255, 255))))
          \<and> length (log s') = 14
          \<and> entry_idx s' = 1)"
proof -
  have r: "remap_labels (load_labels [[0, 1], [2, 7]]) = [[0, 1], [1, 9]]"
    by (simp add: remap_labels_def masked_assign_def load_labels_def)
  have t: "threshold_positive [[0, 1], [1, 9]] = [[0, 1], [1, 1]]"
    by (simp add: threshold_positive_def)
  have A: "\<exists>s'. execute_on_outputs coarse_cv2 (3, 4) ''img'' [[0, 1], [2, 7]]
              \<lparr>box_x = 3, box_y = 1, box_w = 2, box_h = 2\<rparr> fresh_state = (Some ShapeMismatch, s')
          \<and> log s' = [NpSave ''/content/output_orig.npy'' (Plane [[0, 1], [1, 9]]),
                      NpSave ''/content/output_outline.npy'' (Plane [[0, 1], [1, 1]])]
          \<and> ''/content/results'' \<in> set (dirs s')
          \<and> imgs s' = [] \<and> entry_idx s' = 0"
    using bbox_exceeding_raises_late_or_never
      [where s = fresh_state and H = 3 and W = 4 and raw = "[[0, 1], [2, 7]]"
        and bb = "\<lparr>box_x = 3, box_y = 1, box_w = 2, box_h = 2\<rparr>" and L = coarse_cv2
        and stem = "''img''", THEN conjunct1]
    unfolding r t by (simp add: fresh_state_def has_shape_def)
  from bbox_exceeding_raises_late_or_never
      [where s = fresh_state and H = 3 and W = 4 and raw = "[[0], [9]]"
        and bb = "\<lparr>box_x = 4, box_y = 1, box_w = 1, box_h = 2\<rparr>" and L = coarse_cv2
        and stem = "''img''", THEN conjunct2]
  obtain s' where
    "execute_on_outputs coarse_cv2 (3, 4) ''img'' [[0], [9]]
              \<lparr>box_x = 4, box_y = 1, box_w = 1, box_h = 2\<rparr> fresh_state = (None, s')"
    "log s' ! 3 = Imwrite ''/content/results/mytest.jpg''
                            (Colour (replicate 3 (replicate 4 (255, 255, 255))))"
    "length (log s') = 14" "entry_idx s' = 1"
    by (auto simp: fresh_state_def has_shape_def)
  then have B: "\<exists>s'. execute_on_outputs coarse_cv2 (3, 4) ''img'' [[0], [9]]
              \<lparr>box_x = 4, box_y = 1, box_w = 1, box_h = 2\<rparr> fresh_state = (None, s')
          \<and> log s' ! 3 = Imwrite ''/content/results/mytest.jpg''
                            (Colour (replicate 3 (replicate 4 (255, 255, 255))))
          \<and> length (log s') = 14
          \<and> entry_idx s' = 1"
    by blast
  from A B show ?thesis
    by (simp add: fresh_state_def has_shape_def)
qed

subsection \<open>Upscaling and the emitted artifacts\<close>

lemma demo_run_valid:
  "valid_run fresh_state (3, 4) \<lparr>box_x = 1, box_y = 1, box_w = 2, box_h = 1\<rparr> [[0, 9]]"
  by (simp add: valid_run_def fresh_state_def has_shape_def)

lemma demo_run_colorized:
  "background_correct coarse_cv2 (colorize coarse_cv2 (remap_labels (load_labels [[0, 9]])))
     = [[(255, 255, 255), (230, 42, 53)]]"
  by (simp add: background_correct_def colorize_def scale_intensity_def coarse_cv2_def white_def
      remap_labels_def masked_assign_def load_labels_def)

lemma demo_run_canvas:
  "composite (3, 4) \<lparr>box_x = 1, box_y = 1, box_w = 2, box_h = 1\<rparr> [[(255, 255, 255), (230, 42, 53)]]
     = Inr [[(255, 255, 255), (255, 255, 255), (255, 255, 255), (255, 255, 255)],
            [(255, 255, 255), (255, 255, 255), (230, 42, 53), (255, 255, 255)],
            [(255, 255, 255), (255, 255, 255), (255, 255, 255), (255, 255, 255)]]"
  by (simp add: composite_def assign_region_def slice_bounds_def width_def white_def upt_rec)

text \<open>
  C9 (as stated: the resize is applied to every emitted artifact). In a run on a 3 by 4
  source image with a 1 by 2 label array, the fourth entry of the log is the composited
  canvas written to \<^verbatim>\<open>mytest.jpg\<close> with the shape 3 by 4 of the source image: it is
  emitted as it is, never passed to \<^verbatim>\<open>double_image\<close>.
\<close>

theorem resize_every_artifact_counterexample:
  "log (snd (execute_on_outputs coarse_cv2 (3, 4) ''img'' [[0, 9]]
               \<lparr>box_x = 1, box_y = 1, box_w = 2, box_h = 1\<rparr> fresh_state)) ! 3
     = Imwrite ''/content/results/mytest.jpg''
         (Colour [[(255, 255, 255), (255, 255, 255), (255, 255, 255), (255, 255, 255)],
                  [(255, 255, 255), (255, 255, 255), (230, 42, 53), (255, 255, 255)],
                  [(255, 255, 255), (255, 255, 255), (255, 255, 255), (255, 255, 255)]])
   \<and> has_shape [[(255, 255, 255), (255, 255, 255), (255, 255, 255), (255, 255, 255)],
                 [(255, 255, 255), (255, 255, 255), (230, 42, 53), (255, 255, 255)],
                 [(255, 255, 255), (255, 255, 255), (255, 255, 255), (255, 255, 255 :: 8 word)]] 3 4"
proof -
  have l: "length (log fresh_state) + 3 = 3" by (simp add: fresh_state_def)
  from valid_run_mytest [OF demo_run_valid, of coarse_cv2 "''img''"]
  show ?thesis
    unfolding demo_run_colorized demo_run_canvas l
    by (simp add: has_shape_def)
qed


text \<open>
  C9 (amended). For an image of height \<open>0 < h < 2 ^ 30\<close> and width \<open>0 < w < 2 ^ 30\<close> the
  upscaling step gives an image of height exactly \<open>2 * h\<close> and width exactly \<open>2 * w\<close>.
  In a run that goes through, each of the five bitmaps handed to the vectorizer
  (\<^verbatim>\<open>blank\<close>, \<^verbatim>\<open>image\<close>, \<^verbatim>\<open>image_bw\<close>, \<^verbatim>\<open>blank_outline\<close>, \<^verbatim>\<open>solid_outline\<close>) is an
  output of that step on an image of the label array's shape (\<^verbatim>\<open>image_bw\<close> the grey
  conversion of one) and is written right before its vectorization is launched; the
  composited canvas \<^verbatim>\<open>mytest.jpg\<close> is written at the size of the source image and is
  not vectorized.
\<close>

theorem upscaling_doubles_vectorized_bitmaps:
  assumes img: "has_shape img ih iw" "0 < ih" "0 < iw" "ih < 2 ^ 30" "iw < 2 ^ 30"
      and run: "valid_run s (H, W) bb raw"
  shows "(\<exists>big. double_image L img = Inr big \<and> has_shape big (2 * ih) (2 * iw))
       \<and> (\<exists>canvas b1 b2 b4 b5 s'.
            execute_on_outputs L (H, W) stem raw bb s = (None, s')
          \<and> has_shape canvas H W
          \<and> log s' = log s @
             [NpSave ''/content/output_orig.npy'' (Plane (remap_labels (load_labels raw))),
              NpSave ''/content/output_outline.npy''
                (Plane (threshold_positive (remap_labels (load_labels raw)))),
              NpSave (''/content/'' @ (''/results/'' @ stem @ ''_'') @ ''output.npy'')
                (Colour (background_correct L (colorize L (remap_labels (load_labels raw))))),
              Imwrite ''/content/results/mytest.jpg'' (Colour canvas),
              Imwrite (''/content/'' @ (''/results/'' @ stem @ ''_'') @ ''blank.bmp'') (Colour b1),
              Popen (autotrace_cmd (''/content/'' @ (''/results/'' @ stem @ ''_'') @ ''blank.bmp'')
                                   (''/content/'' @ (''/results/'' @ stem @ ''_'') @ ''blank.svg'')),
              Imwrite (''/content/'' @ (''/results/'' @ stem @ ''_'') @ ''image.bmp'') (Colour b2),
              Popen (autotrace_cmd (''/content/'' @ (''/results/'' @ stem @ ''_'') @ ''image.bmp'')
                                   (''/content/'' @ (''/results/'' @ stem @ ''_'') @ ''image.svg'')),
              Imwrite (''/content/'' @ (''/results/'' @ stem @ ''_'') @ ''image_bw.bmp'')
                (Plane (map (map (gray_of L)) b2)),
              Popen (autotrace_cmd (''/content/'' @ (''/results/'' @ stem @ ''_'') @ ''image_bw.bmp'')
                                   (''/content/'' @ (''/results/'' @ stem @ ''_'') @ ''image_bw.svg'')),
              Imwrite (''/content/'' @ (''/results/'' @ stem @ ''_'') @ ''blank_outline.bmp'') (Colour b4),
              Popen (autotrace_cmd (''/content/'' @ (''/results/'' @ stem @ ''_'') @ ''blank_outline.bmp'')
                                   (''/content/'' @ (''/results/'' @ stem @ ''_'') @ ''blank_outline.svg'')),
              Imwrite (''/content/'' @ (''/results/'' @ stem @ ''_'') @ ''solid_outline.bmp'') (Colour b5),
              Popen (autotrace_cmd (''/content/'' @ (''/results/'' @ stem @ ''_'') @ ''solid_outline.bmp'')
                                   (''/content/'' @ (''/results/'' @ stem @ ''_'') @ ''solid_outline.svg''))]
          \<and> (\<forall>b \<in> {b1, b2, b4, b5}. has_shape b (2 * nat (sint (box_h bb))) (2 * nat (sint (box_w bb)))
               \<and> (\<exists>src. has_shape src (nat (sint (box_h bb))) (nat (sint (box_w bb)))
                      \<and> double_image L src = Inr b)))"
proof -
  have A: "\<exists>big. double_image L img = Inr big \<and> has_shape big (2 * ih) (2 * iw)"
    by (rule double_image_shape [OF img])
  from execute_valid_run [OF run, of L stem] obtain canvas b1 b2 b4 b5 s' where
    f1: "execute_on_outputs L (H, W) stem raw bb s = (None, s')"
    and f2: "has_shape canvas H W"
    and f3: "log s' = log s @
             [NpSave ''/content/output_orig.npy'' (Plane (remap_labels (load_labels raw))),
              NpSave ''/content/output_outline.npy''
                (Plane (threshold_positive (remap_labels (load_labels raw)))),
              NpSave (''/content/'' @ (''/results/'' @ stem @ ''_'') @ ''output.npy'')
                (Colour (background_correct L (colorize L (remap_labels (load_labels raw))))),
              Imwrite ''/content/results/mytest.jpg'' (Colour canvas),
              Imwrite (''/content/'' @ (''/results/'' @ stem @ ''_'') @ ''blank.bmp'') (Colour b1),
              Popen (autotrace_cmd (''/content/'' @ (''/results/'' @ stem @ ''_'') @ ''blank.bmp'')
                                   (''/content/'' @ (''/results/'' @ stem @ ''_'') @ ''blank.svg'')),
              Imwrite (''/content/'' @ (''/results/'' @ stem @ ''_'') @ ''image.bmp'') (Colour b2),
              Popen (autotrace_cmd (''/content/'' @ (''/results/'' @ stem @ ''_'') @ ''image.bmp'')
                                   (''/content/'' @ (''/results/'' @ stem @ ''_'') @ ''image.svg'')),
              Imwrite (''/content/'' @ (''/results/'' @ stem @ ''_'') @ ''image_bw.bmp'')
                (Plane (map (map (gray_of L)) b2)),
              Popen (autotrace_cmd (''/content/'' @ (''/results/'' @ stem @ ''_'') @ ''image_bw.bmp'')
                                   (''/content/'' @ (''/results/'' @ stem @ ''_'') @ ''image_bw.svg'')),
              Imwrite (''/content/'' @ (''/results/'' @ stem @ ''_'') @ ''blank_outline.bmp'') (Colour b4),
              Popen (autotrace_cmd (''/content/'' @ (''/results/'' @ stem @ ''_'') @ ''blank_outline.bmp'')
                                   (''/content/'' @ (''/results/'' @ stem @ ''_'') @ ''blank_outline.svg'')),
              Imwrite (''/content/'' @ (''/results/'' @ stem @ ''_'') @ ''solid_outline.bmp'') (Colour b5),
              Popen (autotrace_cmd (''/content/'' @ (''/results/'' @ stem @ ''_'') @ ''solid_outline.bmp'')
                                   (''/content/'' @ (''/results/'' @ stem @ ''_'') @ ''solid_outline.svg''))]"
    and f4: "\<forall>b \<in> {b1, b2, b4, b5}. has_shape b (2 * nat (sint (box_h bb))) (2 * nat (sint (box_w bb)))
               \<and> (\<exists>src. has_shape src (nat (sint (box_h bb))) (nat (sint (box_w bb)))
                      \<and> double_image L src = Inr b)"
    by (elim exE conjE)
  show ?thesis
    apply (rule conjI [OF A])
    apply (rule exI [of _ canvas], rule exI [of _ b1], rule exI [of _ b2])
    apply (rule exI [of _ b4], rule exI [of _ b5], rule exI [of _ s'])
    apply (intro conjI)
       apply (rule f1)
      apply (rule f2)
     apply (rule f3)
    apply (rule f4)
    done
qed

theorem upscaling_doubles_vectorized_bitmaps_witness:
  "has_shape [[(1, 2, 3), (4, 5, 6 :: 8 word)]] 1 2
   \<and> valid_run fresh_state (3, 4) \<lparr>box_x = 1, box_y = 1, box_w = 2, box_h = 1\<rparr> [[0, 9]]
   \<and> (\<exists>big. double_image coarse_cv2 [[(1, 2, 3), (4, 5, 6)]] = Inr big \<and> has_shape big 2 4)
   \<and> (\<exists>canvas b1 b2 b4 b5 s'.
         execute_on_outputs coarse_cv2 (3, 4) ''img'' [[0, 9]]
           \<lparr>box_x = 1, box_y = 1, box_w = 2, box_h = 1\<rparr> fresh_state = (None, s')
       \<and> has_shape canvas 3 4
       \<and> log s' ! 3 = Imwrite ''/content/results/mytest.jpg'' (Colour canvas)
       \<and> log s' ! 4 = Imwrite ''/content//results/img_blank.bmp'' (Colour b1)
       \<and> log s' ! 6 = Imwrite ''/content//results/img_image.bmp'' (Colour b2)
       \<and> log s' ! 8 = Imwrite ''/content//results/img_image_bw.bmp''
                          (Plane (map (map (gray_of coarse_cv2)) b2))
       \<and> log s' ! 10 = Imwrite ''/content//results/img_blank_outline.bmp'' (Colour b4)
       \<and> log s' ! 12 = Imwrite ''/content//results/img_solid_outline.bmp'' (Colour b5)
       \<and> has_shape b1 2 4 \<and> has_shape b2 2 4 \<and> has_shape b4 2 4 \<and> has_shape b5 2 4)"
proof -
  have h1: "has_shape [[(1, 2, 3), (4, 5, 6 :: 8 word)]] 1 2"
    by (simp add: has_shape_def)
  have h2: "valid_run fresh_state (3, 4) \<lparr>box_x = 1, box_y = 1, box_w = 2, box_h = 1\<rparr> [[0, 9]]"
    by (simp add: valid_run_def fresh_state_def has_shape_def)
  note t = upscaling_doubles_vectorized_bitmaps
    [OF h1 _ _ _ _ h2, of coarse_cv2 "''img''", simplified]
  from t have A: "\<exists>big. double_image coarse_cv2 [[(1, 2, 3), (4, 5, 6)]] = Inr big \<and> has_shape big 2 4"
    by (elim conjE)
  from t obtain canvas b1 b2 b4 b5 s' where
    f: "execute_on_outputs coarse_cv2 (3, 4) ''img'' [[0, 9]]
           \<lparr>box_x = 1, box_y = 1, box_w = 2, box_h = 1\<rparr> fresh_state = (None, s')"
       "has_shape canvas 3 4"
       "has_shape b1 2 4" "has_shape b2 2 4" "has_shape b4 2 4" "has_shape b5 2 4"
    and l: "log s' ! 3 = Imwrite ''/content/results/mytest.jpg'' (Colour canvas)"
       "log s' ! 4 = Imwrite ''/content//results/img_blank.bmp'' (Colour b1)"
       "log s' ! 6 = Imwrite ''/content//results/img_image.bmp'' (Colour b2)"
       "log s' ! 8 = Imwrite ''/content//results/img_image_bw.bmp''
                          (Plane (map (map (gray_of coarse_cv2)) b2))"
       "log s' ! 10 = Imwrite ''/content//results/img_blank_outline.bmp'' (Colour b4)"
       "log s' ! 12 = Imwrite ''/content//results/img_solid_outline.bmp'' (Colour b5)"
    by (auto simp: fresh_state_def)
  show ?thesis
    using h1 h2 A f l by blast
qed

subsection \<open>The contour helper and the arrays it is given\<close>

text \<open>
  C10 (as stated: the 23 part extractions and the silhouette extraction all observe the
  merged label array). For the merged array \<open>[[0, 9]]\<close> the thresholding at index 1 would
  give \<open>[[0, 0]]\<close>; the private copy that the silhouette extraction leaves last in the
  store is \<open>[[0, 255]]\<close>, the thresholding of \<^verbatim>\<open>outline\<close> \<open>= [[0, 1]]\<close>: the silhouette
  extraction reads \<^verbatim>\<open>outline\<close>, not the merged label array.
\<close>

theorem silhouette_observes_merged_counterexample:
  "remap_labels (load_labels [[0, 9]]) = [[0, 9]]
   \<and> mask_eq 1 (mask_ne 1 [[0, 9]]) = [[0, 0]]
   \<and> last (labs (snd (execute_on_outputs coarse_cv2 (3, 4) ''img'' [[0, 9]]
                  \<lparr>box_x = 1, box_y = 1, box_w = 2, box_h = 1\<rparr> fresh_state))) = [[0, 255]]"
proof -
  have r: "remap_labels (load_labels [[0, 9]]) = [[0, 9]]"
    by (simp add: remap_labels_def masked_assign_def load_labels_def)
  have m: "mask_eq 1 (mask_ne 1 [[0, 9]]) = [[0, 0]]"
    by (simp add: mask_eq_def mask_ne_def)
  have o: "snd (findContours coarse_cv2 (mask_eq 1 (mask_ne 1 (threshold_positive [[0, 9]]))))
             = [[0, 255]]"
    by (simp add: mask_eq_def mask_ne_def threshold_positive_def coarse_cv2_def)
  from valid_run_silhouette_copy [OF demo_run_valid, of coarse_cv2 "''img''"]
  show ?thesis unfolding r o using m by simp
qed

text \<open>
  C10 (amended). For every label array \<open>A\<close> of the store and every index \<open>i\<close>,
  \<^verbatim>\<open>find_body_part(A, i)\<close> changes the store only by adding its private, thresholded
  copy: \<open>A\<close> and every other array are unchanged. So in \<^verbatim>\<open>generate_bitmaps\<close> the 23
  part extractions all threshold the same, unmodified merged label array
  \<^verbatim>\<open>output_orig\<close>, and the silhouette extraction thresholds the unmodified array
  \<^verbatim>\<open>outline\<close>.
\<close>

theorem find_body_part_private_copy:
  assumes "a < length (labs s)"
      and im: "im < length (imgs s0)" "has_shape (imgs s0 ! im) h w"
      and bounds: "0 < h" "0 < w" "h < 2 ^ 30" "w < 2 ^ 30"
      and refs: "oo < length (labs s0)" "ol < length (labs s0)"
  shows "find_body_part L a i s =
           (fst (findContours L (mask_eq i (mask_ne i (labs s ! a)))),
            s\<lparr>labs := labs s @ [snd (findContours L (mask_eq i (mask_ne i (labs s ! a))))]\<rparr>)
       \<and> (\<forall>b < length (labs s). labs (snd (find_body_part L a i s)) ! b = labs s ! b)
       \<and> (\<exists>s'. generate_bitmaps L prefix im oo ol s0 = (None, s')
             \<and> labs s' = labs s0 @
                 map (\<lambda>i. snd (findContours L (mask_eq i (mask_ne i (labs s0 ! oo))))) [1..23] @
                 [snd (findContours L (mask_eq 1 (mask_ne 1 (labs s0 ! ol))))]
             \<and> (\<forall>b < length (labs s0). labs s' ! b = labs s0 ! b))"
proof -
  have A: "find_body_part L a i s =
           (fst (findContours L (mask_eq i (mask_ne i (labs s ! a)))),
            s\<lparr>labs := labs s @ [snd (findContours L (mask_eq i (mask_ne i (labs s ! a))))]\<rparr>)"
    by (rule find_body_part_eq)
  have B: "\<forall>b < length (labs s). labs (snd (find_body_part L a i s)) ! b = labs s ! b"
    unfolding A by (simp add: nth_append)
  from generate_bitmaps_ok [OF im bounds, of L prefix oo ol] refs
  obtain s' where g: "generate_bitmaps L prefix im oo ol s0 = (None, s')"
    and l: "labs s' = labs s0 @
                 map (\<lambda>i. snd (findContours L (mask_eq i (mask_ne i (labs s0 ! oo))))) [1..23] @
                 [snd (findContours L (mask_eq 1 (mask_ne 1 (labs s0 ! ol))))]"
    by (elim exE conjE) simp
  have C: "\<forall>b < length (labs s0). labs s' ! b = labs s0 ! b"
    unfolding l by (simp add: nth_append)
  from A B g l C show ?thesis by blast
qed

theorem find_body_part_private_copy_witness:
  "(0 :: nat) < length (labs (fresh_state\<lparr>labs := [[[0, 9]], [[0, 1]]],
                                          imgs := [[[(255, 255, 255), (230, 42, 53)]]]\<rparr>))
   \<and> has_shape (imgs (fresh_state\<lparr>labs := [[[0, 9]], [[0, 1]]],
                                   imgs := [[[(255, 255, 255), (230, 42, 53)]]]\<rparr>) ! 0) 1 2
   \<and> find_body_part coarse_cv2 0 9
         (fresh_state\<lparr>labs := [[[0, 9]], [[0, 1]]], imgs := [[[(255, 255, 255), (230, 42, 53)]]]\<rparr>)
       = ([], fresh_state\<lparr>labs := [[[0, 9]], [[0, 1]], [[0, 255]]],
                           imgs := [[[(255, 255, 255), (230, 42, 53)]]]\<rparr>)
   \<and> (\<exists>s'. generate_bitmaps coarse_cv2 ''/results/img_'' 0 0 1
               (fresh_state\<lparr>labs := [[[0, 9]], [[0, 1]]],
                             imgs := [[[(255, 255, 255), (230, 42, 53)]]]\<rparr>) = (None, s')
          \<and> labs s' ! 0 = [[0, 9]] \<and> labs s' ! 1 = [[0, 1]]
          \<and> last (labs s') = [[0, 255]])"
proof -
  let ?s = "fresh_state\<lparr>labs := [[[0, 9]], [[0, 1]]], imgs := [[[(255, 255, 255), (230, 42, 53)]]]\<rparr>"
  have h1: "(0 :: nat) < length (labs ?s)" by simp
  have h2: "(0 :: nat) < length (imgs ?s)" by simp
  have h3: "has_shape (imgs ?s ! 0) 1 2" by (simp add: has_shape_def)
  have h4: "(1 :: nat) < length (labs ?s)" by simp
  note t = find_body_part_private_copy
    [OF h1 h2 h3 _ _ _ _ h1 h4, of coarse_cv2 9 "''/results/img_''", simplified]
  from t have A: "find_body_part coarse_cv2 0 9 ?s
       = ([], fresh_state\<lparr>labs := [[[0, 9]], [[0, 1]], [[0, 255]]],
                           imgs := [[[(255, 255, 255), (230, 42, 53)]]]\<rparr>)"
    by (simp add: mask_eq_def mask_ne_def coarse_cv2_def)
  from t obtain s' where g: "generate_bitmaps coarse_cv2 ''/results/img_'' 0 0 1 ?s = (None, s')"
    and l: "labs s' ! 0 = [[0, 9]]" "labs s' ! 1 = [[0, 1]]" "last (labs s') = [[0, 255]]"
    by (auto simp: mask_eq_def mask_ne_def coarse_cv2_def)
  from h1 h3 A g l show ?thesis by blast
qed

end
